theory Spec2Isabelle
  imports Complex_Main "HOL-Library.AList"
begin

section \<open>The host platform of the service worker\<close>

text \<open>
  The service worker runs against three host facilities: the network (\<open>fetch\<close>), the
  cache storage (\<open>caches\<close>) and the console. The worker's own code is embedded
  function by function; every host call it makes is a state transformer on a
  \<open>world\<close> that holds the cache storage, the chronological list of host calls
  made so far and the console lines written so far.

  One listener runs at a time. \<open>caches.open\<close>, \<open>caches.match\<close>, \<open>caches.keys\<close>
  and \<open>caches.delete\<close> are taken to succeed. \<open>fetch\<close> can reject, and so can
  \<open>cache.put\<close> and \<open>cache.addAll\<close>, which the host refuses for some requests and
  responses. The source never awaits \<open>cache.put\<close>: the call issues the write, the
  strategy returns, and the write completes afterwards, if the host lets the
  worker live that long.

  A request carries its URL already parsed (the source reads
  \<open>new URL(request.url).pathname\<close>), its method, its headers (names in lower case,
  as \<open>Headers.get\<close> compares them) and its body.
\<close>

record URL =
  origin :: string
  pathname :: string
  search :: string

record request =
  url :: URL
  req_method :: string
  req_headers :: "(string \<times> string) list"
  req_body :: "string option"

record response =
  status :: nat
  statusText :: string
  headers :: "(string \<times> string) list"
  body :: string

section \<open>Strings\<close>

text \<open>\<open>String.prototype.startsWith\<close>, \<open>endsWith\<close> and \<open>includes\<close>.\<close>

fun startsWith :: "string \<Rightarrow> string \<Rightarrow> bool" where
  "startsWith s [] = True"
| "startsWith [] (p # ps) = False"
| "startsWith (c # cs) (p # ps) = (c = p \<and> startsWith cs ps)"

definition endsWith :: "string \<Rightarrow> string \<Rightarrow> bool" where
  "endsWith s p = startsWith (rev s) (rev p)"

fun includes_str :: "string \<Rightarrow> string \<Rightarrow> bool" where
  "includes_str [] p = (p = [])"
| "includes_str (c # cs) p = (startsWith (c # cs) p \<or> includes_str cs p)"

text \<open>
  The field values of a header are its comma-separated parts with the blanks around
  them removed; header names compare without regard to case.
\<close>

fun split_commas :: "string \<Rightarrow> string list" where
  "split_commas [] = [[]]"
| "split_commas (c # cs) =
     (if c = CHR '','' then [] # split_commas cs
      else case split_commas cs of
             [] \<Rightarrow> [[c]]
           | x # xs \<Rightarrow> (c # x) # xs)"

definition is_blank :: "char \<Rightarrow> bool" where
  "is_blank c = (c = CHR '' '' \<or> c = CHR 0x09)"

definition trim :: "string \<Rightarrow> string" where
  "trim s = rev (dropWhile is_blank (rev (dropWhile is_blank s)))"

definition lower_case :: "char \<Rightarrow> char" where
  "lower_case c =
     (let n = (of_char c :: nat) in if 65 \<le> n \<and> n \<le> 90 then char_of (n + 32) else c)"

section \<open>Errors, the network and the cache storage\<close>

text \<open>
  A JavaScript exception. \<open>NetworkFailure\<close> is the rejection of \<open>fetch\<close> when the
  network is unreachable; the text of a \<open>TypeError\<close> raised by the engine is the
  engine's own wording.
\<close>

datatype js_error = TypeError string | Error string | NetworkFailure

text \<open>\<open>response.ok\<close>: the status is in the range 200 to 299.\<close>

definition ok :: "response \<Rightarrow> bool" where
  "ok r = (200 \<le> status r \<and> status r \<le> 299)"

text \<open>
  The network answers a request with a response, or the fetch rejects. It is a
  parameter of every operation that fetches.
\<close>

type_synonym network = "request \<Rightarrow> js_error + response"

text \<open>
  A cache (tier) maps a request identity, the URL of a GET request, to the response
  snapshot stored for it. The cache storage lists the tiers by name in the order of
  their creation, which is the order \<open>caches.keys()\<close> reports and
  \<open>caches.match\<close> searches.
\<close>

type_synonym cache = "(URL \<times> response) list"

type_synonym cache_storage = "(string \<times> cache) list"

datatype event =
    Fetch request
  | CachesMatch URL
  | CachesOpen string
  | CacheMatch string URL
  | CachePut string URL response
  | CachesKeys
  | CachesDelete string
  | SkipWaiting
  | ClientsClaim
  | RemovePendingAction nat

record world =
  caches :: cache_storage
  effects :: "event list"
  console :: "string list"

definition emit :: "event \<Rightarrow> world \<Rightarrow> world" where
  "emit e w = w\<lparr>effects := effects w @ [e]\<rparr>"

definition console_log :: "string \<Rightarrow> world \<Rightarrow> world" where
  "console_log s w = w\<lparr>console := console w @ [s]\<rparr>"

text \<open>\<open>fetch(request)\<close>: one network call, recorded.\<close>

definition fetch :: "network \<Rightarrow> request \<Rightarrow> world \<Rightarrow> (js_error + response) \<times> world" where
  "fetch net r w = (net r, emit (Fetch r) w)"

text \<open>\<open>caches.match(request)\<close>: the first tier, in creation order, that holds a snapshot.\<close>

fun storage_match :: "cache_storage \<Rightarrow> URL \<Rightarrow> response option" where
  "storage_match [] k = None"
| "storage_match ((n, c) # cs) k =
     (case map_of c k of Some r \<Rightarrow> Some r | None \<Rightarrow> storage_match cs k)"

definition caches_match :: "request \<Rightarrow> world \<Rightarrow> response option \<times> world" where
  "caches_match r w = (storage_match (caches w) (url r), emit (CachesMatch (url r)) w)"

text \<open>\<open>caches.open(name)\<close>: the tier is created, empty, when it does not exist yet.\<close>

definition caches_open :: "string \<Rightarrow> world \<Rightarrow> world" where
  "caches_open name w =
     emit (CachesOpen name)
       (if name \<in> fst ` set (caches w) then w
        else w\<lparr>caches := caches w @ [(name, [])]\<rparr>)"

text \<open>\<open>cache.match(request)\<close> on the tier \<open>name\<close>.\<close>

definition tier :: "world \<Rightarrow> string \<Rightarrow> URL \<Rightarrow> response option" where
  "tier w name k = (case map_of (caches w) name of None \<Rightarrow> None | Some c \<Rightarrow> map_of c k)"


text \<open>
  What the host refuses to cache. \<open>cache.put\<close> and \<open>cache.addAll\<close> reject, with a
  TypeError, a request whose scheme is not http or https or whose method is not
  GET, a response of status 206, and a response with a \<open>Vary\<close> header that has
  the field value \<open>*\<close>.
\<close>

definition http_scheme :: "URL \<Rightarrow> bool" where
  "http_scheme u = (startsWith (origin u) ''http://'' \<or> startsWith (origin u) ''https://'')"

definition request_cacheable :: "request \<Rightarrow> bool" where
  "request_cacheable r = (http_scheme (url r) \<and> req_method r = ''GET'')"

definition vary_star :: "response \<Rightarrow> bool" where
  "vary_star resp =
     list_ex (\<lambda>(n, v). map lower_case n = ''vary''
                \<and> list_ex (\<lambda>t. trim t = ''*'') (split_commas v))
       (headers resp)"

definition response_cacheable :: "response \<Rightarrow> bool" where
  "response_cacheable resp = (status resp \<noteq> 206 \<and> \<not> vary_star resp)"

definition put_accepted :: "request \<Rightarrow> response \<Rightarrow> bool" where
  "put_accepted r resp = (request_cacheable r \<and> response_cacheable resp)"

text \<open>
  \<open>cache.put(request, response)\<close> on the tier \<open>name\<close>. \<open>cache_put\<close> is the call,
  which issues the write and returns a promise that the source drops.
  \<open>put_completed\<close> is that write carried out: the snapshot replaces the one stored
  for the request, unless the host refuses the write, which then leaves the tier
  as it was (the rejection of the dropped promise reaches nobody).
\<close>

definition store_snapshot :: "string \<Rightarrow> request \<Rightarrow> response \<Rightarrow> world \<Rightarrow> world" where
  "store_snapshot name r resp w =
     w\<lparr>caches := AList.map_entry name (AList.update (url r) resp) (caches w)\<rparr>"

definition cache_put :: "string \<Rightarrow> request \<Rightarrow> response \<Rightarrow> world \<Rightarrow> world" where
  "cache_put name r resp w = emit (CachePut name (url r) resp) w"

definition put_completed :: "string \<Rightarrow> request \<Rightarrow> response \<Rightarrow> world \<Rightarrow> world" where
  "put_completed name r resp w =
     (if put_accepted r resp then store_snapshot name r resp w else w)"

text \<open>
  What a listener's promise amounts to: the value it resolves with, the world
  \<open>at_return\<close> in which it resolves, and the world \<open>settled\<close> once the write that
  the listener has issued without awaiting it, if any, has completed.
\<close>

record 'a outcome =
  returned :: 'a
  at_return :: world
  settled :: world

definition resolved :: "'a \<Rightarrow> world \<Rightarrow> 'a outcome" where
  "resolved v w = \<lparr>returned = v, at_return = w, settled = w\<rparr>"

text \<open>What a run has done: the requests fetched, in order.\<close>

fun fetches :: "event list \<Rightarrow> request list" where
  "fetches [] = []"
| "fetches (Fetch r # es) = r # fetches es"
| "fetches (e # es) = fetches es"

section \<open>Configuration\<close>

definition STATIC_CACHE :: string where "STATIC_CACHE = ''static-v1''"
definition API_CACHE :: string where "API_CACHE = ''api-v1''"
definition DYNAMIC_CACHE :: string where "DYNAMIC_CACHE = ''dynamic-v1''"

definition STATIC_ASSETS :: "string list" where
  "STATIC_ASSETS =
     [''/'', ''/index.html'', ''/static/js/bundle.js'', ''/static/css/main.css'',
      ''/manifest.json'', ''/favicon.ico'']"

definition CRITICAL_APIS :: "string list" where
  "CRITICAL_APIS =
     [''/api/stocks/market-status'', ''/api/stocks/market-overview'',
      ''/api/stocks/top-gainers'', ''/api/stocks/top-losers'',
      ''/api/stocks/market-index'']"

datatype strategy = CACHE_FIRST | NETWORK_FIRST | STALE_WHILE_REVALIDATE

section \<open>Request classification\<close>

text \<open>
  \<open>isStaticAsset\<close>: the path matches
  \<open>/\.(js|css|png|jpg|jpeg|gif|svg|ico|woff|woff2|ttf|eot)$/\<close>, that is, it ends in a
  dot followed by one of the listed extensions.
\<close>

definition static_extensions :: "string list" where
  "static_extensions =
     [''js'', ''css'', ''png'', ''jpg'', ''jpeg'', ''gif'', ''svg'', ''ico'',
      ''woff'', ''woff2'', ''ttf'', ''eot'']"

definition isStaticAsset :: "request \<Rightarrow> bool" where
  "isStaticAsset r = list_ex (\<lambda>ext. endsWith (pathname (url r)) (''.'' @ ext)) static_extensions"

definition isAPIRequest :: "request \<Rightarrow> bool" where
  "isAPIRequest r = startsWith (pathname (url r)) ''/api/''"

text \<open>
  \<open>isHTMLRequest\<close>: \<open>request.headers.get('accept')\<close> is \<open>null\<close> when the request has
  no such header, and \<open>.includes\<close> on \<open>null\<close> raises a TypeError.
\<close>

definition isHTMLRequest :: "request \<Rightarrow> js_error + bool" where
  "isHTMLRequest r =
     (case map_of (req_headers r) ''accept'' of
        None \<Rightarrow> Inl (TypeError ''Cannot read properties of null (reading 'includes')'')
      | Some a \<Rightarrow> Inr (includes_str a ''text/html''))"

definition isCriticalAPI :: "request \<Rightarrow> bool" where
  "isCriticalAPI r = list_ex (\<lambda>api. startsWith (pathname (url r)) api) CRITICAL_APIS"

text \<open>
  The fetch listener's choice: \<open>Inr None\<close> when it returns without
  \<open>event.respondWith\<close> (a request that is not a GET), \<open>Inl e\<close> when the listener
  itself throws, and \<open>Inr (Some s)\<close> when it responds with the strategy \<open>s\<close>:
  \<open>event.respondWith(cacheFirst(request))\<close> for \<open>CACHE_FIRST\<close>,
  \<open>event.respondWith(networkFirst(request))\<close> for \<open>NETWORK_FIRST\<close> and
  \<open>event.respondWith(staleWhileRevalidate(request))\<close> for
  \<open>STALE_WHILE_REVALIDATE\<close>.
\<close>

definition fetch_listener :: "request \<Rightarrow> js_error + strategy option" where
  "fetch_listener r =
     (if req_method r \<noteq> ''GET'' then Inr None
      else if isStaticAsset r then Inr (Some CACHE_FIRST)
      else if isAPIRequest r then Inr (Some NETWORK_FIRST)
      else case isHTMLRequest r of
             Inl e \<Rightarrow> Inl e
           | Inr True \<Rightarrow> Inr (Some STALE_WHILE_REVALIDATE)
           | Inr False \<Rightarrow> Inr (Some NETWORK_FIRST))"

section \<open>The three strategies\<close>

definition offline_response :: response where
  "offline_response =
     \<lparr>status = 503, statusText = ''Service Unavailable'', headers = [],
      body = ''Offline - Resource not available''\<rparr>"

text \<open>
  The body of the structured fallback is
  \<open>JSON.stringify({success: false, message: 'Offline - Data not available', offline: true})\<close>.
\<close>

datatype json = JBool bool | JString string | JObject "(string \<times> json) list"

definition quoted :: "string \<Rightarrow> string" where
  "quoted s = CHR 0x22 # s @ [CHR 0x22]"

fun join :: "string \<Rightarrow> string list \<Rightarrow> string" where
  "join sep [] = []"
| "join sep [x] = x"
| "join sep (x # y # ys) = x @ sep @ join sep (y # ys)"

text \<open>
  \<open>JSON.stringify\<close> on booleans, on strings that need no escaping, and on objects
  of them.
\<close>

fun JSON_stringify :: "json \<Rightarrow> string" where
  "JSON_stringify (JBool b) = (if b then ''true'' else ''false'')"
| "JSON_stringify (JString s) = quoted s"
| "JSON_stringify (JObject kvs) =
     ''{'' @ join '','' (map (\<lambda>(k, v). quoted k @ '':'' @ JSON_stringify v) kvs) @ ''}''"

definition offline_payload :: json where
  "offline_payload =
     JObject [(''success'', JBool False),
              (''message'', JString ''Offline - Data not available''),
              (''offline'', JBool True)]"

definition offline_json_response :: response where
  "offline_json_response =
     \<lparr>status = 503, statusText = '''',
      headers = [(''Content-Type'', ''application/json'')],
      body = JSON_stringify offline_payload\<rparr>"

text \<open>
  \<open>cacheFirst\<close>. The \<open>try\<close> block is \<open>cacheFirst_try\<close>: a rejected fetch leaves it
  as \<open>Inl\<close>; the \<open>catch\<close> clause turns that into the synthesized 503.
\<close>

definition cacheFirst_try :: "network \<Rightarrow> request \<Rightarrow> world \<Rightarrow> (js_error + response) outcome" where
  "cacheFirst_try net r w =
     (case caches_match r w of
        (Some cachedResponse, w1) \<Rightarrow> resolved (Inr cachedResponse) w1
      | (None, w1) \<Rightarrow>
          (case fetch net r w1 of
             (Inl e, w2) \<Rightarrow> resolved (Inl e) w2
           | (Inr networkResponse, w2) \<Rightarrow>
               if ok networkResponse
               then (let w3 = cache_put STATIC_CACHE r networkResponse
                                (caches_open STATIC_CACHE w2)
                     in \<lparr>returned = Inr networkResponse, at_return = w3,
                         settled = put_completed STATIC_CACHE r networkResponse w3\<rparr>)
               else resolved (Inr networkResponse) w2))"

definition cacheFirst :: "network \<Rightarrow> request \<Rightarrow> world \<Rightarrow> (js_error + response) outcome" where
  "cacheFirst net r w =
     (let attempt = cacheFirst_try net r w
      in case returned attempt of
           Inl e \<Rightarrow>
             resolved (Inr offline_response)
               (console_log ''Cache first strategy failed:'' (at_return attempt))
         | Inr resp \<Rightarrow> attempt)"

text \<open>\<open>networkFirst\<close>, with its \<open>try\<close> block and its \<open>catch\<close> clause.\<close>

definition networkFirst_try :: "network \<Rightarrow> request \<Rightarrow> world \<Rightarrow> (js_error + response) outcome" where
  "networkFirst_try net r w =
     (case fetch net r w of
        (Inl e, w1) \<Rightarrow> resolved (Inl e) w1
      | (Inr networkResponse, w1) \<Rightarrow>
          if ok networkResponse
          then (let w2 = cache_put API_CACHE r networkResponse (caches_open API_CACHE w1)
                in \<lparr>returned = Inr networkResponse, at_return = w2,
                    settled = put_completed API_CACHE r networkResponse w2\<rparr>)
          else resolved (Inr networkResponse) w1)"

definition networkFirst_catch :: "request \<Rightarrow> world \<Rightarrow> (js_error + response) outcome" where
  "networkFirst_catch r w =
     (case caches_match r (console_log ''Network failed, trying cache:'' w) of
        (Some cachedResponse, w1) \<Rightarrow> resolved (Inr cachedResponse) w1
      | (None, w1) \<Rightarrow>
          if isCriticalAPI r then resolved (Inr offline_json_response) w1
          else resolved (Inr offline_response) w1)"

definition networkFirst :: "network \<Rightarrow> request \<Rightarrow> world \<Rightarrow> (js_error + response) outcome" where
  "networkFirst net r w =
     (let attempt = networkFirst_try net r w
      in case returned attempt of
           Inl e \<Rightarrow> networkFirst_catch r (at_return attempt)
         | Inr resp \<Rightarrow> attempt)"


section \<open>Lifecycle: install and activate\<close>

text \<open>
  \<open>cache.addAll(requests)\<close> is a host operation, which the install listener
  awaits. It rejects at once when the host would not cache one of the requests.
  Otherwise it fetches every request; when a fetch rejects, or a response is not
  \<open>ok\<close> or is one the host refuses to cache, it rejects with a TypeError and stores
  nothing; when every response is acceptable it stores them all.
\<close>

fun addAll_responses :: "network \<Rightarrow> request list \<Rightarrow> (request \<times> response) list option" where
  "addAll_responses net [] = Some []"
| "addAll_responses net (r # rs) =
     (case net r of
        Inl e \<Rightarrow> None
      | Inr resp \<Rightarrow>
          if ok resp \<and> response_cacheable resp
          then map_option ((#) (r, resp)) (addAll_responses net rs) else None)"

definition cache_addAll ::
  "string \<Rightarrow> request list \<Rightarrow> network \<Rightarrow> world \<Rightarrow> (js_error + unit) \<times> world" where
  "cache_addAll name rs net w =
     (if \<not> list_all request_cacheable rs
      then (Inl (TypeError ''Failed to execute 'addAll' on 'Cache': Request is unsupported''), w)
      else let w1 = fold (\<lambda>r. emit (Fetch r)) rs w in
           case addAll_responses net rs of
             None \<Rightarrow>
               (Inl (TypeError ''Failed to execute 'addAll' on 'Cache': Request failed''), w1)
           | Some stored \<Rightarrow>
               (Inr (), fold (\<lambda>(r, resp). store_snapshot name r resp) stored w1))"

text \<open>A manifest path is requested from the worker's own origin.\<close>

definition asset_request :: "string \<Rightarrow> string \<Rightarrow> request" where
  "asset_request org path =
     \<lparr>url = \<lparr>origin = org, pathname = path, search = []\<rparr>, req_method = ''GET'',
      req_headers = [], req_body = None\<rparr>"

text \<open>
  The install listener hands \<open>event.waitUntil\<close> the promise
  \<open>caches.open(STATIC_CACHE).then(addAll).then(skipWaiting).catch(console.error)\<close>;
  \<open>install\<close> is the settlement of that promise.
\<close>

definition install :: "string \<Rightarrow> network \<Rightarrow> world \<Rightarrow> (js_error + unit) \<times> world" where
  "install org net w =
     (case cache_addAll STATIC_CACHE (map (asset_request org) STATIC_ASSETS) net
             (console_log ''Caching static assets''
               (caches_open STATIC_CACHE (console_log ''Service Worker installing...'' w))) of
        (Inr u, w1) \<Rightarrow>
          (Inr (), emit SkipWaiting (console_log ''Static assets cached successfully'' w1))
      | (Inl e, w1) \<Rightarrow>
          (Inr (), console_log ''Failed to cache static assets:'' w1))"

text \<open>
  The host's side of \<open>event.waitUntil\<close>: the install succeeds when the promise
  fulfils; when it rejects the install fails and the worker is discarded.
\<close>

datatype install_outcome = Installed | Redundant

definition install_event :: "string \<Rightarrow> network \<Rightarrow> world \<Rightarrow> install_outcome \<times> world" where
  "install_event org net w =
     (case install org net w of
        (Inr u, w1) \<Rightarrow> (Installed, w1)
      | (Inl e, w1) \<Rightarrow> (Redundant, w1))"

text \<open>\<open>caches.keys()\<close> and \<open>caches.delete(name)\<close>.\<close>

definition caches_keys :: "world \<Rightarrow> string list \<times> world" where
  "caches_keys w = (map fst (caches w), emit CachesKeys w)"

definition caches_delete :: "string \<Rightarrow> world \<Rightarrow> world" where
  "caches_delete name w =
     emit (CachesDelete name) (w\<lparr>caches := AList.delete name (caches w)\<rparr>)"

text \<open>
  The activate listener: the callback mapped over \<open>cacheNames\<close>, then
  \<open>self.clients.claim()\<close> once \<open>Promise.all\<close> has resolved.
\<close>

fun delete_old_caches :: "string list \<Rightarrow> world \<Rightarrow> world" where
  "delete_old_caches [] w = w"
| "delete_old_caches (cacheName # cacheNames) w =
     delete_old_caches cacheNames
       (if cacheName \<noteq> STATIC_CACHE \<and> cacheName \<noteq> API_CACHE \<and> cacheName \<noteq> DYNAMIC_CACHE
        then caches_delete cacheName (console_log ''Deleting old cache:'' w)
        else w)"

definition activate :: "world \<Rightarrow> (js_error + unit) \<times> world" where
  "activate w =
     (case caches_keys (console_log ''Service Worker activating...'' w) of
        (cacheNames, w1) \<Rightarrow>
          (Inr (), emit ClientsClaim
                     (console_log ''Service Worker activated'' (delete_old_caches cacheNames w1))))"

text \<open>What a run has done: the tiers deleted, in order.\<close>

fun deletions :: "event list \<Rightarrow> string list" where
  "deletions [] = []"
| "deletions (CachesDelete n # es) = n # deletions es"
| "deletions (e # es) = deletions es"

section \<open>Background sync\<close>

record action =
  action_id :: nat
  action_url :: URL
  action_method :: string
  action_headers :: "(string \<times> string) list"
  action_body :: "string option"

text \<open>Decimal digits of a number, for \<open>`Sync failed: ${response.status}`\<close>.\<close>

fun decimal :: "nat \<Rightarrow> string" where
  "decimal n =
     (if n < 10 then [char_of (48 + n)]
      else decimal (n div 10) @ [char_of (48 + n mod 10)])"

definition action_request :: "action \<Rightarrow> request" where
  "action_request a =
     \<lparr>url = action_url a, req_method = action_method a, req_headers = action_headers a,
      req_body = action_body a\<rparr>"

definition syncAction :: "network \<Rightarrow> action \<Rightarrow> world \<Rightarrow> (js_error + response) \<times> world" where
  "syncAction net a w =
     (case fetch net (action_request a) w of
        (Inl e, w1) \<Rightarrow> (Inl e, w1)
      | (Inr resp, w1) \<Rightarrow>
          if \<not> ok resp then (Inl (Error (''Sync failed: '' @ decimal (status resp))), w1)
          else (Inr resp, w1))"

text \<open>
  In the source \<open>getPendingActions\<close> and \<open>removePendingAction\<close> are placeholders for
  the durable queue: the first returns the empty list, the second writes a console
  line. The call of \<open>removePendingAction\<close> is recorded as an event, since it is the
  worker's request to the queue to drop the action.
\<close>

definition getPendingActions :: "world \<Rightarrow> action list \<times> world" where
  "getPendingActions w = ([], w)"

definition removePendingAction :: "nat \<Rightarrow> world \<Rightarrow> world" where
  "removePendingAction actionId w =
     console_log ''Removing pending action:'' (emit (RemovePendingAction actionId) w)"

text \<open>The \<open>for (const action of pendingActions)\<close> loop with its inner \<open>try\<close>/\<open>catch\<close>.\<close>

fun sync_pending :: "network \<Rightarrow> action list \<Rightarrow> world \<Rightarrow> world" where
  "sync_pending net [] w = w"
| "sync_pending net (a # pendingActions) w =
     sync_pending net pendingActions
       (case syncAction net a w of
          (Inr resp, w1) \<Rightarrow> removePendingAction (action_id a) w1
        | (Inl e, w1) \<Rightarrow> console_log ''Failed to sync action:'' w1)"

definition doBackgroundSync :: "network \<Rightarrow> world \<Rightarrow> world" where
  "doBackgroundSync net w =
     (case getPendingActions w of
        (pendingActions, w1) \<Rightarrow>
          console_log ''Background sync completed'' (sync_pending net pendingActions w1))"

text \<open>What a run has done: the actions it asked the queue to drop, in order.\<close>

fun removals :: "event list \<Rightarrow> nat list" where
  "removals [] = []"
| "removals (RemovePendingAction i # es) = i # removals es"
| "removals (e # es) = removals es"

text \<open>A replay succeeds when the fetch resolves with a 2xx response.\<close>

definition replay_succeeds :: "network \<Rightarrow> action \<Rightarrow> bool" where
  "replay_succeeds net a = (case net (action_request a) of Inl e \<Rightarrow> False | Inr resp \<Rightarrow> ok resp)"

text \<open>The sync listeners: each runs the replayer for its own tag only.\<close>

definition sync_listener :: "string \<Rightarrow> network \<Rightarrow> world \<Rightarrow> world" where
  "sync_listener tag net w =
     (let w1 = console_log ''Background sync triggered:'' w
      in if tag = ''background-sync'' then doBackgroundSync net w1 else w1)"

definition periodicsync_listener :: "string \<Rightarrow> network \<Rightarrow> world \<Rightarrow> world" where
  "periodicsync_listener tag net w =
     (if tag = ''content-sync'' then doBackgroundSync net w else w)"

section \<open>The analytics worker\<close>

subsection \<open>JavaScript numbers\<close>

text \<open>
  A JavaScript number is an IEEE 754 double. The finite doubles are modelled as the
  reals they denote, and every arithmetic operation rounds its exact result to the
  nearest double, ties to even: \<open>fl\<close> keeps 53 significant bits, and fewer below
  \<open>2^-1022\<close>. Results beyond the largest double (\<open>Infinity\<close>) and \<open>NaN\<close> are
  outside this model.
\<close>

definition pow2 :: "int \<Rightarrow> real" where
  "pow2 k = (if 0 \<le> k then 2 ^ nat k else 1 / 2 ^ nat (- k))"

definition round_half_even :: "real \<Rightarrow> int" where
  "round_half_even x =
     (let f = \<lfloor>x\<rfloor>; d = x - of_int f
      in if d < 1 / 2 then f else if 1 / 2 < d then f + 1 else if even f then f else f + 1)"

fun bit_length :: "nat \<Rightarrow> nat" where
  "bit_length n = (if n = 0 then 0 else Suc (bit_length (n div 2)))"

declare bit_length.simps [simp del]

text \<open>The binary exponent \<open>e\<close> of a non-zero \<open>x\<close>: \<open>2^e \<le> |x| < 2^(e+1)\<close>.\<close>

definition exponent :: "real \<Rightarrow> int" where
  "exponent x =
     (if 1 \<le> \<bar>x\<bar> then int (bit_length (nat \<lfloor>\<bar>x\<bar>\<rfloor>)) - 1
      else - int (bit_length (nat (\<lceil>1 / \<bar>x\<bar>\<rceil> - 1))))"

definition fl :: "real \<Rightarrow> real" where
  "fl x =
     (if x = 0 then 0
      else let e = max (exponent x - 52) (- 1074)
           in of_int (round_half_even (x / pow2 e)) * pow2 e)"

text \<open>
  \<open>a || b\<close> on values that are a number or \<open>undefined\<close> (\<open>None\<close>): the left operand
  when it is truthy, that is, a number other than zero; the right operand otherwise.
\<close>

definition js_or :: "real option \<Rightarrow> real option \<Rightarrow> real option" where
  "js_or a b = (case a of Some x \<Rightarrow> if x \<noteq> 0 then Some x else b | None \<Rightarrow> b)"

definition js_or_number :: "real option \<Rightarrow> real \<Rightarrow> real" where
  "js_or_number a n = (case a of Some x \<Rightarrow> if x \<noteq> 0 then x else n | None \<Rightarrow> n)"

subsection \<open>calculatePortfolioValue\<close>

text \<open>
  The request data is an object; the fields \<open>calculatePortfolioValue\<close> destructures
  are optional (\<open>None\<close> is \<open>undefined\<close>), and any further fields of the object are
  the record's extension.
\<close>

record holding =
  symbol :: string
  quantity :: real
  averagePrice :: real
  currentPrice :: "real option"

record portfolio_data =
  holdings :: "holding list option"
  currentPrices :: "(string \<times> real) list option"
  initialInvestment :: "real option"

text \<open>\<open>{...holding, currentPrice, currentValue, costBasis, gainLoss, gainLossPercent}\<close>\<close>

record processed_holding = holding +
  currentValue :: real
  costBasis :: real
  gainLoss :: real
  gainLossPercent :: real

record summary =
  totalValue :: real
  totalCost :: real
  totalGainLoss :: real
  totalGainLossPercent :: real
  totalReturn :: real

record portfolio_result =
  processedHoldings :: "processed_holding list"
  summary :: summary

text \<open>
  The callback of \<open>holdings.map\<close>. Reading \<open>currentPrices[holding.symbol]\<close> raises a
  TypeError when \<open>currentPrices\<close> is \<open>undefined\<close>.
\<close>

definition process_holding ::
  "(string \<times> real) list option \<Rightarrow> holding \<Rightarrow> js_error + processed_holding" where
  "process_holding prices h =
     (case prices of
        None \<Rightarrow>
          Inl (TypeError (''Cannot read properties of undefined (reading '' @
                          [CHR 0x27] @ symbol h @ [CHR 0x27] @ '')''))
      | Some cp \<Rightarrow>
          (let price = js_or_number (js_or (map_of cp (symbol h)) (currentPrice h)) 0;
               value = fl (price * quantity h);
               cost = fl (averagePrice h * quantity h);
               gain = fl (value - cost);
               percent = (if 0 < cost then fl (fl (gain / cost) * 100) else 0)
           in Inr (holding.extend (h\<lparr>currentPrice := Some price\<rparr>)
                     (processed_holding.fields value cost gain percent))))"

text \<open>
  The running totals \<open>totalValue\<close>, \<open>totalCost\<close> and \<open>totalGainLoss\<close>, which the
  callback updates holding by holding.
\<close>

record totals =
  sum_value :: real
  sum_cost :: real
  sum_gainLoss :: real

fun map_holdings ::
  "(string \<times> real) list option \<Rightarrow> holding list \<Rightarrow> totals \<Rightarrow>
   js_error + processed_holding list \<times> totals" where
  "map_holdings prices [] t = Inr ([], t)"
| "map_holdings prices (h # hs) t =
     (case process_holding prices h of
        Inl e \<Rightarrow> Inl e
      | Inr p \<Rightarrow>
          (case map_holdings prices hs
                  \<lparr>sum_value = fl (sum_value t + currentValue p),
                   sum_cost = fl (sum_cost t + costBasis p),
                   sum_gainLoss = fl (sum_gainLoss t + gainLoss p)\<rparr> of
             Inl e \<Rightarrow> Inl e
           | Inr (ps, t') \<Rightarrow> Inr (p # ps, t')))"

definition calculatePortfolioValue :: "'z portfolio_data_scheme \<Rightarrow> js_error + portfolio_result" where
  "calculatePortfolioValue data =
     (case holdings data of
        None \<Rightarrow> Inl (TypeError ''Cannot read properties of undefined (reading 'map')'')
      | Some hs \<Rightarrow>
          (case map_holdings (currentPrices data) hs
                  \<lparr>sum_value = 0, sum_cost = 0, sum_gainLoss = 0\<rparr> of
             Inl e \<Rightarrow> Inl e
           | Inr (ps, t) \<Rightarrow>
               Inr \<lparr>processedHoldings = ps,
                    summary =
                      \<lparr>totalValue = sum_value t,
                       totalCost = sum_cost t,
                       totalGainLoss = sum_gainLoss t,
                       totalGainLossPercent =
                         (if 0 < sum_cost t then fl (fl (sum_gainLoss t / sum_cost t) * 100) else 0),
                       totalReturn =
                         (case initialInvestment data of
                            None \<Rightarrow> 0
                          | Some i \<Rightarrow>
                              if 0 < i then fl (fl (fl (sum_value t - i) / i) * 100) else 0)\<rparr>\<rparr>))"

subsection \<open>The message listener\<close>

text \<open>
  A request \<open>{type, id, data}\<close>. The six other calculators are parameters of the
  listener: each is a function of the data that returns a result or throws.
\<close>

record 'd message =
  m_type :: string
  m_id :: nat
  m_data :: 'd

record ('d, 'r) calculators =
  processMarketData :: "'d \<Rightarrow> js_error + 'r"
  calculatePerformanceMetrics :: "'d \<Rightarrow> js_error + 'r"
  processChartData :: "'d \<Rightarrow> js_error + 'r"
  analyzeStockTrends :: "'d \<Rightarrow> js_error + 'r"
  calculateRiskMetrics :: "'d \<Rightarrow> js_error + 'r"
  processWatchlistAnalysis :: "'d \<Rightarrow> js_error + 'r"

datatype 'r result = PortfolioValue portfolio_result | Computed 'r

text \<open>
  The responses: \<open>{type: 'SUCCESS', id, result}\<close> and \<open>{type: 'ERROR', id, error}\<close>,
  where \<open>error\<close> carries the message and the stack of the exception caught.
\<close>

datatype 'r worker_response = SUCCESS nat "'r result" | ERROR nat js_error

fun response_id :: "'r worker_response \<Rightarrow> nat" where
  "response_id (SUCCESS i res) = i"
| "response_id (ERROR i e) = i"

definition known_types :: "string list" where
  "known_types =
     [''CALCULATE_PORTFOLIO_VALUE'', ''PROCESS_MARKET_DATA'',
      ''CALCULATE_PERFORMANCE_METRICS'', ''PROCESS_CHART_DATA'', ''ANALYZE_STOCK_TRENDS'',
      ''CALCULATE_RISK_METRICS'', ''PROCESS_WATCHLIST_ANALYSIS'']"

text \<open>The \<open>switch\<close> inside the \<open>try\<close> block.\<close>

definition switch_type ::
  "('z portfolio_data_scheme, 'r) calculators \<Rightarrow> 'z portfolio_data_scheme message \<Rightarrow>
   js_error + 'r result" where
  "switch_type calcs m =
     (if m_type m = ''CALCULATE_PORTFOLIO_VALUE''
        then map_sum id PortfolioValue (calculatePortfolioValue (m_data m))
      else if m_type m = ''PROCESS_MARKET_DATA''
        then map_sum id Computed (processMarketData calcs (m_data m))
      else if m_type m = ''CALCULATE_PERFORMANCE_METRICS''
        then map_sum id Computed (calculatePerformanceMetrics calcs (m_data m))
      else if m_type m = ''PROCESS_CHART_DATA''
        then map_sum id Computed (processChartData calcs (m_data m))
      else if m_type m = ''ANALYZE_STOCK_TRENDS''
        then map_sum id Computed (analyzeStockTrends calcs (m_data m))
      else if m_type m = ''CALCULATE_RISK_METRICS''
        then map_sum id Computed (calculateRiskMetrics calcs (m_data m))
      else if m_type m = ''PROCESS_WATCHLIST_ANALYSIS''
        then map_sum id Computed (processWatchlistAnalysis calcs (m_data m))
      else Inl (Error (''Unknown message type: '' @ m_type m)))"

text \<open>The listener: the list of the messages it posts back.\<close>

definition onmessage ::
  "('z portfolio_data_scheme, 'r) calculators \<Rightarrow> 'z portfolio_data_scheme message \<Rightarrow>
   'r worker_response list" where
  "onmessage calcs m =
     (case switch_type calcs m of
        Inr res \<Rightarrow> [SUCCESS (m_id m) res]
      | Inl e \<Rightarrow> [ERROR (m_id m) e])"

section \<open>Notions used in the statements\<close>

text \<open>The Tier Registry: the tier names the activate listener keeps.\<close>

definition registry :: "string list" where
  "registry = [STATIC_CACHE, API_CACHE, DYNAMIC_CACHE]"

text \<open>
  The requests of the install manifest, and what it means for the fetch of one to
  fail under \<open>cache.addAll\<close>: the host would not cache the request, the fetch
  rejects, the response is not 2xx, or the host would not cache the response.
\<close>

definition manifest_requests :: "string \<Rightarrow> request list" where
  "manifest_requests org = map (asset_request org) STATIC_ASSETS"

definition fetch_fails :: "network \<Rightarrow> request \<Rightarrow> bool" where
  "fetch_fails net r =
     (\<not> request_cacheable r
      \<or> (case net r of Inl e \<Rightarrow> True | Inr resp \<Rightarrow> \<not> (ok resp \<and> response_cacheable resp)))"

section \<open>Concrete worlds, networks and requests\<close>

text \<open>
  The inputs at which the theorems below are instantiated: a world with no tier, a
  world with one tier holding one snapshot, a network that is unreachable, and a
  network that answers every request with the same response.
\<close>

definition fresh :: world where
  "fresh = \<lparr>caches = [], effects = [], console = []\<rparr>"

definition with_snapshot :: "string \<Rightarrow> request \<Rightarrow> response \<Rightarrow> world" where
  "with_snapshot name r resp = \<lparr>caches = [(name, [(url r, resp)])], effects = [], console = []\<rparr>"

definition offline :: network where
  "offline r = Inl NetworkFailure"

definition serving :: "response \<Rightarrow> network" where
  "serving resp r = Inr resp"

definition reply :: "nat \<Rightarrow> string \<Rightarrow> response" where
  "reply code text = \<lparr>status = code, statusText = [], headers = [], body = text\<rparr>"

text \<open>A navigation request: a GET whose accept header asks for HTML.\<close>

definition html_request :: "string \<Rightarrow> string \<Rightarrow> request" where
  "html_request org path =
     (asset_request org path)\<lparr>req_headers := [(''accept'', ''text/html,application/xhtml+xml'')]\<rparr>"

text \<open>A world whose tiers, all empty, have the given names.\<close>

definition tiers_named :: "string list \<Rightarrow> world" where
  "tiers_named names = \<lparr>caches = map (\<lambda>n. (n, [])) names, effects = [], console = []\<rparr>"

text \<open>
  A queued POST, and a network that answers 500 on one path and 201 on every other.
\<close>

definition queued :: "nat \<Rightarrow> string \<Rightarrow> action" where
  "queued i path =
     \<lparr>action_id = i, action_url = \<lparr>origin = ''https://app.example'', pathname = path, search = []\<rparr>,
      action_method = ''POST'', action_headers = [], action_body = Some ''{}''\<rparr>"

definition rejecting_path :: "string \<Rightarrow> network" where
  "rejecting_path path r =
     (if pathname (url r) = path then Inr (reply 500 ''failed'') else Inr (reply 201 ''created''))"

text \<open>
  A request for a byte range of a media file, which the fetch listener answers by
  its default branch.
\<close>

definition range_request :: "string \<Rightarrow> string \<Rightarrow> request" where
  "range_request org path =
     (asset_request org path)\<lparr>req_headers := [(''accept'', ''*/*''), (''range'', ''bytes=0-'')]\<rparr>"

text \<open>
  The holding \<open>{symbol: "X", quantity: 10, averagePrice: 5, currentPrice: 7}\<close>, and
  calculators that return an empty result.
\<close>

definition holding_X :: holding where
  "holding_X = \<lparr>symbol = ''X'', quantity = 10, averagePrice = 5, currentPrice = Some 7\<rparr>"

definition stub_calculators :: "('d, unit) calculators" where
  "stub_calculators =
     \<lparr>processMarketData = (\<lambda>d. Inr ()), calculatePerformanceMetrics = (\<lambda>d. Inr ()),
      processChartData = (\<lambda>d. Inr ()), analyzeStockTrends = (\<lambda>d. Inr ()),
      calculateRiskMetrics = (\<lambda>d. Inr ()), processWatchlistAnalysis = (\<lambda>d. Inr ())\<rparr>"

section \<open>Facts about the host operations\<close>

lemma caches_emit [simp]: "caches (emit e w) = caches w"
  by (simp add: emit_def)

lemma effects_emit [simp]: "effects (emit e w) = effects w @ [e]"
  by (simp add: emit_def)

lemma effects_console_log [simp]: "effects (console_log s w) = effects w"
  by (simp add: console_log_def)

lemma caches_console_log [simp]: "caches (console_log s w) = caches w"
  by (simp add: console_log_def)

lemma console_emit [simp]: "console (emit e w) = console w"
  by (simp add: emit_def)

lemma console_console_log [simp]: "console (console_log s w) = console w @ [s]"
  by (simp add: console_log_def)

lemma effects_caches_open [simp]: "effects (caches_open name w) = effects w @ [CachesOpen name]"
  by (simp add: caches_open_def)

lemma console_caches_open [simp]: "console (caches_open name w) = console w"
  by (simp add: caches_open_def)

lemma effects_cache_put [simp]:
  "effects (cache_put name r resp w) = effects w @ [CachePut name (url r) resp]"
  by (simp add: cache_put_def)

lemma caches_cache_put [simp]: "caches (cache_put name r resp w) = caches w"
  by (simp add: cache_put_def)

lemma effects_store_snapshot [simp]: "effects (store_snapshot name r resp w) = effects w"
  by (simp add: store_snapshot_def)

lemma console_store_snapshot [simp]: "console (store_snapshot name r resp w) = console w"
  by (simp add: store_snapshot_def)

lemma effects_put_completed [simp]: "effects (put_completed name r resp w) = effects w"
  by (simp add: put_completed_def)

lemma put_completed_refused: "\<not> put_accepted r resp \<Longrightarrow> put_completed name r resp w = w"
  by (simp add: put_completed_def)

lemma fetches_append: "fetches (xs @ ys) = fetches xs @ fetches ys"
  by (induction xs rule: fetches.induct) simp_all

lemma map_of_open_new: "name \<notin> fst ` set cs \<Longrightarrow> map_of (cs @ [(name, [])]) name = Some []"
proof -
  assume "name \<notin> fst ` set cs"
  then have "map_of cs name = None"
    by (simp add: map_of_eq_None_iff)
  then show ?thesis
    by (simp add: map_add_def)
qed

lemma caches_open_has_tier: "\<exists>c. map_of (caches (caches_open name w)) name = Some c"
proof (cases "name \<in> fst ` set (caches w)")
  case True
  then have "map_of (caches w) name \<noteq> None"
    by (simp add: map_of_eq_None_iff)
  with True show ?thesis
    by (auto simp: caches_open_def emit_def)
next
  case False
  with map_of_open_new [of name "caches w"] show ?thesis
    by (simp add: caches_open_def emit_def)
qed

lemma tier_caches_open [simp]: "tier (caches_open name w) n k = tier w n k"
  by (auto simp: tier_def caches_open_def emit_def map_add_def split: option.splits)

lemma tier_emit [simp]: "tier (emit e w) n k = tier w n k"
  by (simp add: tier_def)

lemma tier_console_log [simp]: "tier (console_log s w) n k = tier w n k"
  by (simp add: tier_def)

lemma tier_cache_put [simp]: "tier (cache_put name r resp w) n k = tier w n k"
  by (simp add: tier_def)

text \<open>A stored snapshot replaces the one the tier held for the request, and no other.\<close>

lemma tier_store_snapshot:
  assumes "map_of (caches w) name = Some c"
  shows "tier (store_snapshot name r resp w) name k =
           (if k = url r then Some resp else tier w name k)"
  using assms by (simp add: tier_def store_snapshot_def map_of_map_entry update_conv')

lemma store_snapshot_keeps_tier:
  assumes "\<exists>c. map_of (caches w) name = Some c"
  shows "\<exists>c. map_of (caches (store_snapshot name r resp w)) name = Some c"
  using assms by (auto simp: store_snapshot_def map_of_map_entry)

text \<open>
  A write into a tier that has been opened, once completed, is the snapshot the
  tier holds, when the host accepts the write.
\<close>

lemma tier_put_completed:
  assumes "put_accepted r resp"
  shows "tier (put_completed name r resp (cache_put name r resp (caches_open name w)))
           name (url r) = Some resp"
proof -
  obtain c where "map_of (caches (cache_put name r resp (caches_open name w))) name = Some c"
    using caches_open_has_tier [of name w] by auto
  with assms show ?thesis
    by (simp add: put_completed_def tier_store_snapshot)
qed


lemma resolved_simps [simp]:
  "returned (resolved v w) = v" "at_return (resolved v w) = w" "settled (resolved v w) = w"
  by (simp_all add: resolved_def)

lemma example_cacheable:
  "request_cacheable (asset_request ''https://app.example'' path)"
  "request_cacheable (html_request ''https://app.example'' path)"
  "request_cacheable (range_request ''https://app.example'' path)"
  "response_cacheable (reply 200 text)"
  "\<not> response_cacheable (reply 206 text)"
  by (simp_all add: request_cacheable_def http_scheme_def asset_request_def html_request_def
        range_request_def response_cacheable_def vary_star_def reply_def)

section \<open>Network-first\<close>

lemma networkFirst_ok:
  assumes "net r = Inr resp" and "ok resp"
  shows "networkFirst net r w =
           \<lparr>returned = Inr resp,
            at_return = cache_put API_CACHE r resp (caches_open API_CACHE (emit (Fetch r) w)),
            settled = put_completed API_CACHE r resp
                        (cache_put API_CACHE r resp (caches_open API_CACHE (emit (Fetch r) w)))\<rparr>"
  using assms by (simp add: networkFirst_def networkFirst_try_def fetch_def Let_def)

lemma networkFirst_not_ok:
  assumes "net r = Inr resp" and "\<not> ok resp"
  shows "networkFirst net r w = resolved (Inr resp) (emit (Fetch r) w)"
  using assms by (simp add: networkFirst_def networkFirst_try_def fetch_def Let_def)

lemma networkFirst_failed:
  assumes "net r = Inl e"
  shows "networkFirst net r w = networkFirst_catch r (emit (Fetch r) w)"
  using assms by (simp add: networkFirst_def networkFirst_try_def fetch_def Let_def)

lemma networkFirst_catch_value:
  "returned (networkFirst_catch r w) =
     (case storage_match (caches w) (url r) of
        Some c \<Rightarrow> Inr c
      | None \<Rightarrow> if isCriticalAPI r then Inr offline_json_response else Inr offline_response)"
  by (simp add: networkFirst_catch_def caches_match_def split: option.splits)

lemma networkFirst_catch_world:
  "at_return (networkFirst_catch r w) =
     emit (CachesMatch (url r)) (console_log ''Network failed, trying cache:'' w)"
  "settled (networkFirst_catch r w) = at_return (networkFirst_catch r w)"
  by (simp_all add: networkFirst_catch_def caches_match_def split: option.splits)

lemma networkFirst_at_return: "tier (at_return (networkFirst net r w)) n k = tier w n k"
proof (cases "net r")
  case (Inl e)
  then show ?thesis
    by (simp add: networkFirst_failed networkFirst_catch_world)
next
  case (Inr resp)
  then show ?thesis
    by (cases "ok resp") (simp_all add: networkFirst_ok networkFirst_not_ok)
qed

text \<open>
  C2 (as amended). For a GET request that the fetch listener answers network-first:
  when the fetch resolves with a 2xx response, that response is returned, and the
  strategy has issued, without awaiting it, a write into the API tier; when the
  host accepts the write (the response is not a 206 and has no \<open>Vary: *\<close>, the
  request is an http or https GET), the response is, once the write has completed,
  the snapshot the API tier holds for the request, whatever it held before. When
  the fetch rejects, the cached snapshot is returned if the cache storage has one;
  when it has none, the result is the 503 response with the JSON body
  \<open>{"success":false,"message":"Offline - Data not available","offline":true}\<close> for a
  path on the critical-API list, and the generic 503 response otherwise. In every
  case the tiers are, when the strategy returns, as they were.
\<close>

theorem networkFirst_policy:
  assumes "fetch_listener r = Inr (Some NETWORK_FIRST)"
  shows \<open>(\<forall>resp. net r = Inr resp \<and> ok resp \<longrightarrow>
            returned (networkFirst net r w) = Inr resp
          \<and> effects (at_return (networkFirst net r w)) =
              effects w @ [Fetch r, CachesOpen API_CACHE, CachePut API_CACHE (url r) resp]
          \<and> (put_accepted r resp \<longrightarrow>
                tier (settled (networkFirst net r w)) API_CACHE (url r) = Some resp))
       \<and> (\<forall>e c. net r = Inl e \<and> storage_match (caches w) (url r) = Some c \<longrightarrow>
            returned (networkFirst net r w) = Inr c)
       \<and> (\<forall>e. net r = Inl e \<and> storage_match (caches w) (url r) = None \<and> isCriticalAPI r \<longrightarrow>
            returned (networkFirst net r w) = Inr offline_json_response)
       \<and> (\<forall>e. net r = Inl e \<and> storage_match (caches w) (url r) = None \<and> \<not> isCriticalAPI r \<longrightarrow>
            returned (networkFirst net r w) = Inr offline_response)
       \<and> (\<forall>n k. tier (at_return (networkFirst net r w)) n k = tier w n k)
       \<and> status offline_json_response = 503
       \<and> body offline_json_response =
            ''{"success":false,"message":"Offline - Data not available","offline":true}''
       \<and> status offline_response = 503\<close>
proof -
  have json: \<open>body offline_json_response =
      ''{"success":false,"message":"Offline - Data not available","offline":true}''\<close>
    by (simp add: offline_json_response_def offline_payload_def quoted_def)
  have stored: "returned (networkFirst net r w) = Inr resp
      \<and> effects (at_return (networkFirst net r w)) =
          effects w @ [Fetch r, CachesOpen API_CACHE, CachePut API_CACHE (url r) resp]
      \<and> (put_accepted r resp \<longrightarrow>
            tier (settled (networkFirst net r w)) API_CACHE (url r) = Some resp)"
    if "net r = Inr resp" and "ok resp" for resp
    using that tier_put_completed [of r resp API_CACHE "emit (Fetch r) w"]
    by (simp add: networkFirst_ok)
  have failed: "returned (networkFirst net r w) =
      (case storage_match (caches w) (url r) of
         Some c \<Rightarrow> Inr c
       | None \<Rightarrow> if isCriticalAPI r then Inr offline_json_response else Inr offline_response)"
    if "net r = Inl e" for e
    using that by (simp add: networkFirst_failed networkFirst_catch_value)
  have "status offline_json_response = 503" "status offline_response = 503"
    by (simp_all add: offline_json_response_def offline_response_def)
  with json stored failed networkFirst_at_return [of net r w] show ?thesis
    by auto
qed

theorem networkFirst_policy_witness:
  "fetch_listener (asset_request ''https://app.example'' ''/api/stocks/top-gainers'')
     = Inr (Some NETWORK_FIRST)
   \<and> put_accepted (asset_request ''https://app.example'' ''/api/stocks/top-gainers'')
        (reply 200 ''new'')
   \<and> returned (networkFirst (serving (reply 200 ''new''))
        (asset_request ''https://app.example'' ''/api/stocks/top-gainers'')
        (with_snapshot API_CACHE (asset_request ''https://app.example'' ''/api/stocks/top-gainers'')
           (reply 200 ''old''))) = Inr (reply 200 ''new'')
   \<and> tier (at_return (networkFirst (serving (reply 200 ''new''))
        (asset_request ''https://app.example'' ''/api/stocks/top-gainers'')
        (with_snapshot API_CACHE (asset_request ''https://app.example'' ''/api/stocks/top-gainers'')
           (reply 200 ''old''))))
        API_CACHE (url (asset_request ''https://app.example'' ''/api/stocks/top-gainers''))
       = Some (reply 200 ''old'')
   \<and> tier (settled (networkFirst (serving (reply 200 ''new''))
        (asset_request ''https://app.example'' ''/api/stocks/top-gainers'')
        (with_snapshot API_CACHE (asset_request ''https://app.example'' ''/api/stocks/top-gainers'')
           (reply 200 ''old''))))
        API_CACHE (url (asset_request ''https://app.example'' ''/api/stocks/top-gainers''))
       = Some (reply 200 ''new'')
   \<and> returned (networkFirst offline
        (asset_request ''https://app.example'' ''/api/stocks/top-gainers'')
        (with_snapshot API_CACHE (asset_request ''https://app.example'' ''/api/stocks/top-gainers'')
           (reply 200 ''old''))) = Inr (reply 200 ''old'')
   \<and> returned (networkFirst offline
        (asset_request ''https://app.example'' ''/api/stocks/top-gainers'') fresh)
       = Inr offline_json_response
   \<and> fetch_listener (asset_request ''https://app.example'' ''/api/orders'')
     = Inr (Some NETWORK_FIRST)
   \<and> returned (networkFirst offline (asset_request ''https://app.example'' ''/api/orders'') fresh)
       = Inr offline_response"
proof -
  let ?r = "asset_request ''https://app.example'' ''/api/stocks/top-gainers''"
  let ?q = "asset_request ''https://app.example'' ''/api/orders''"
  let ?w = "with_snapshot API_CACHE ?r (reply 200 ''old'')"
  have r: "fetch_listener ?r = Inr (Some NETWORK_FIRST)"
    by (simp add: fetch_listener_def asset_request_def isStaticAsset_def isAPIRequest_def
          static_extensions_def endsWith_def)
  have q: "fetch_listener ?q = Inr (Some NETWORK_FIRST)"
    by (simp add: fetch_listener_def asset_request_def isStaticAsset_def isAPIRequest_def
          static_extensions_def endsWith_def)
  have crit: "isCriticalAPI ?r" "\<not> isCriticalAPI ?q"
    by (simp_all add: isCriticalAPI_def CRITICAL_APIS_def asset_request_def)
  have ok: "ok (reply 200 ''new'')"
    by (simp add: ok_def reply_def)
  have accepted: "put_accepted ?r (reply 200 ''new'')"
    by (simp add: put_accepted_def example_cacheable)
  have hit: "storage_match (caches ?w) (url ?r) = Some (reply 200 ''old'')"
    by (simp add: with_snapshot_def)
  have old: "tier ?w API_CACHE (url ?r) = Some (reply 200 ''old'')"
    by (simp add: tier_def with_snapshot_def)
  have miss: "storage_match (caches fresh) (url ?r) = None"
    "storage_match (caches fresh) (url ?q) = None"
    by (simp_all add: fresh_def)
  from networkFirst_policy [OF r, of "serving (reply 200 ''new'')" ?w]
    networkFirst_policy [OF r, of offline ?w]
    networkFirst_policy [OF r, of offline fresh]
    networkFirst_policy [OF q, of offline fresh]
    r q crit ok accepted hit old miss
  show ?thesis
    by (simp add: serving_def offline_def)
qed

text \<open>
  C2, on a 206 response: it is 2xx, so the strategy returns it and issues the
  write, which the host refuses; the API tier never holds it.
\<close>

theorem networkFirst_counterexample:
  "fetch_listener (range_request ''https://app.example'' ''/media/intro.mp4'')
     = Inr (Some NETWORK_FIRST)
   \<and> ok (reply 206 ''part'')
   \<and> returned (networkFirst (serving (reply 206 ''part''))
        (range_request ''https://app.example'' ''/media/intro.mp4'') fresh)
       = Inr (reply 206 ''part'')
   \<and> tier (settled (networkFirst (serving (reply 206 ''part''))
        (range_request ''https://app.example'' ''/media/intro.mp4'') fresh))
        API_CACHE (url (range_request ''https://app.example'' ''/media/intro.mp4'')) = None"
proof -
  let ?r = "range_request ''https://app.example'' ''/media/intro.mp4''"
  have "fetch_listener ?r = Inr (Some NETWORK_FIRST)"
    by (simp add: fetch_listener_def range_request_def asset_request_def isStaticAsset_def
          isAPIRequest_def isHTMLRequest_def static_extensions_def endsWith_def)
  moreover have ok: "ok (reply 206 ''part'')"
    by (simp add: ok_def reply_def)
  moreover have "\<not> put_accepted ?r (reply 206 ''part'')"
    by (simp add: put_accepted_def example_cacheable)
  then have "settled (networkFirst (serving (reply 206 ''part'')) ?r fresh) =
      cache_put API_CACHE ?r (reply 206 ''part'') (caches_open API_CACHE (emit (Fetch ?r) fresh))"
    using ok by (simp add: networkFirst_ok [of _ _ "reply 206 ''part''"] serving_def
          put_completed_refused)
  then have "tier (settled (networkFirst (serving (reply 206 ''part'')) ?r fresh))
      API_CACHE (url ?r) = tier fresh API_CACHE (url ?r)"
    by simp
  then have "tier (settled (networkFirst (serving (reply 206 ''part'')) ?r fresh))
      API_CACHE (url ?r) = None"
    by (simp add: tier_def fresh_def)
  moreover have "returned (networkFirst (serving (reply 206 ''part'')) ?r fresh)
      = Inr (reply 206 ''part'')"
    using ok by (simp add: networkFirst_ok [of _ _ "reply 206 ''part''"] serving_def)
  ultimately show ?thesis
    by simp
qed

text \<open>
  C10. When the fetch of a network-first request resolves with a response that is
  not 2xx, that response is returned as it is; the cache storage is left as it was
  (nothing is stored and no write is issued), and the only host call made is the
  fetch: the cache is not consulted and no 503 is synthesized.
\<close>

theorem networkFirst_non_ok:
  assumes "net r = Inr resp" and "\<not> ok resp"
  shows "returned (networkFirst net r w) = Inr resp
       \<and> caches (at_return (networkFirst net r w)) = caches w
       \<and> effects (at_return (networkFirst net r w)) = effects w @ [Fetch r]
       \<and> settled (networkFirst net r w) = at_return (networkFirst net r w)"
  using assms by (simp add: networkFirst_not_ok)

theorem networkFirst_non_ok_witness:
  "returned (networkFirst (serving (reply 404 ''missing''))
          (asset_request ''https://app.example'' ''/api/orders'') fresh)
     = Inr (reply 404 ''missing'')
   \<and> caches (settled (networkFirst (serving (reply 404 ''missing''))
        (asset_request ''https://app.example'' ''/api/orders'') fresh)) = []
   \<and> effects (settled (networkFirst (serving (reply 404 ''missing''))
        (asset_request ''https://app.example'' ''/api/orders'') fresh))
     = [Fetch (asset_request ''https://app.example'' ''/api/orders'')]"
  using networkFirst_non_ok [of "serving (reply 404 ''missing'')"
      "asset_request ''https://app.example'' ''/api/orders''" "reply 404 ''missing''" fresh]
  by (simp add: serving_def reply_def ok_def fresh_def)

section \<open>Cache-first\<close>

lemma cacheFirst_cached:
  assumes "storage_match (caches w) (url r) = Some c"
  shows "cacheFirst net r w = resolved (Inr c) (emit (CachesMatch (url r)) w)"
  using assms by (simp add: cacheFirst_def cacheFirst_try_def caches_match_def Let_def)

lemma cacheFirst_fetched_ok:
  assumes "storage_match (caches w) (url r) = None" and "net r = Inr resp" and "ok resp"
  shows "cacheFirst net r w =
           \<lparr>returned = Inr resp,
            at_return = cache_put STATIC_CACHE r resp
              (caches_open STATIC_CACHE (emit (Fetch r) (emit (CachesMatch (url r)) w))),
            settled = put_completed STATIC_CACHE r resp
              (cache_put STATIC_CACHE r resp
                 (caches_open STATIC_CACHE (emit (Fetch r) (emit (CachesMatch (url r)) w))))\<rparr>"
  using assms
  by (simp add: cacheFirst_def cacheFirst_try_def caches_match_def fetch_def Let_def)

lemma cacheFirst_fetched_not_ok:
  assumes "storage_match (caches w) (url r) = None" and "net r = Inr resp" and "\<not> ok resp"
  shows "cacheFirst net r w = resolved (Inr resp) (emit (Fetch r) (emit (CachesMatch (url r)) w))"
  using assms
  by (simp add: cacheFirst_def cacheFirst_try_def caches_match_def fetch_def Let_def)

lemma cacheFirst_failed:
  assumes "storage_match (caches w) (url r) = None" and "net r = Inl e"
  shows "cacheFirst net r w =
           resolved (Inr offline_response)
             (console_log ''Cache first strategy failed:''
                (emit (Fetch r) (emit (CachesMatch (url r)) w)))"
  using assms
  by (simp add: cacheFirst_def cacheFirst_try_def caches_match_def fetch_def Let_def)

text \<open>
  C7 (as amended). A GET request whose path ends in a static-asset extension is
  answered cache-first. When the cache storage holds a snapshot, it is returned and
  no fetch is made. When it holds none, exactly one fetch is made and the response
  is returned; for a 2xx response the strategy has by then opened the static tier
  and issued the write of the response, which it does not await: when it returns,
  the tiers are still as they were, and once the write has completed the static
  tier holds the response, when the host accepts the write (the response is not a
  206 and has no \<open>Vary: *\<close>, the request is an http or https GET). A response that
  is not 2xx is returned without a write. When there is no snapshot and the fetch
  rejects, the synthesized 503 response is returned. In every case the strategy's
  promise fulfils: no error reaches the caller.
\<close>

theorem cacheFirst_policy:
  assumes "req_method r = ''GET''" and "isStaticAsset r"
  shows "fetch_listener r = Inr (Some CACHE_FIRST)
       \<and> (\<forall>c. storage_match (caches w) (url r) = Some c \<longrightarrow>
            returned (cacheFirst net r w) = Inr c
          \<and> fetches (effects (settled (cacheFirst net r w))) = fetches (effects w))
       \<and> (storage_match (caches w) (url r) = None \<longrightarrow>
            fetches (effects (settled (cacheFirst net r w))) = fetches (effects w) @ [r]
          \<and> (\<forall>resp. net r = Inr resp \<longrightarrow>
                returned (cacheFirst net r w) = Inr resp
              \<and> (ok resp \<longrightarrow>
                    effects (at_return (cacheFirst net r w)) =
                      effects w @ [CachesMatch (url r), Fetch r, CachesOpen STATIC_CACHE,
                                   CachePut STATIC_CACHE (url r) resp]
                  \<and> (\<forall>n k. tier (at_return (cacheFirst net r w)) n k = tier w n k)
                  \<and> (put_accepted r resp \<longrightarrow>
                        tier (settled (cacheFirst net r w)) STATIC_CACHE (url r) = Some resp))
              \<and> (\<not> ok resp \<longrightarrow> caches (settled (cacheFirst net r w)) = caches w))
          \<and> (\<forall>e. net r = Inl e \<longrightarrow> returned (cacheFirst net r w) = Inr offline_response))
       \<and> (\<exists>resp. returned (cacheFirst net r w) = Inr resp)
       \<and> status offline_response = 503"
proof -
  let ?res = "cacheFirst net r w"
  have classified: "fetch_listener r = Inr (Some CACHE_FIRST)"
    using assms by (simp add: fetch_listener_def)
  have cached: "returned ?res = Inr c \<and> fetches (effects (settled ?res)) = fetches (effects w)"
    if "storage_match (caches w) (url r) = Some c" for c
    using that by (simp add: cacheFirst_cached fetches_append)
  have absent: "fetches (effects (settled ?res)) = fetches (effects w) @ [r]"
    if miss: "storage_match (caches w) (url r) = None"
  proof (cases "net r")
    case (Inl e)
    with miss show ?thesis
      by (simp add: cacheFirst_failed fetches_append)
  next
    case (Inr resp)
    with miss show ?thesis
      by (cases "ok resp")
         (simp_all add: cacheFirst_fetched_ok cacheFirst_fetched_not_ok fetches_append)
  qed
  have given: "returned ?res = Inr resp"
    if "storage_match (caches w) (url r) = None" and "net r = Inr resp" for resp
    using that
    by (cases "ok resp") (simp_all add: cacheFirst_fetched_ok cacheFirst_fetched_not_ok)
  have issued: "effects (at_return ?res) =
        effects w @ [CachesMatch (url r), Fetch r, CachesOpen STATIC_CACHE,
                     CachePut STATIC_CACHE (url r) resp]
      \<and> (\<forall>n k. tier (at_return ?res) n k = tier w n k)
      \<and> (put_accepted r resp \<longrightarrow> tier (settled ?res) STATIC_CACHE (url r) = Some resp)"
    if "storage_match (caches w) (url r) = None" and "net r = Inr resp" and "ok resp" for resp
    using that
      tier_put_completed [of r resp STATIC_CACHE "emit (Fetch r) (emit (CachesMatch (url r)) w)"]
    by (simp add: cacheFirst_fetched_ok)
  have not_stored: "caches (settled ?res) = caches w"
    if "storage_match (caches w) (url r) = None" and "net r = Inr resp" and "\<not> ok resp" for resp
    using that by (simp add: cacheFirst_fetched_not_ok)
  have failed: "returned ?res = Inr offline_response"
    if "storage_match (caches w) (url r) = None" and "net r = Inl e" for e
    using that by (simp add: cacheFirst_failed)
  have fulfilled: "\<exists>resp. returned ?res = Inr resp"
    by (cases "returned (cacheFirst_try net r w)") (simp_all add: cacheFirst_def Let_def)
  have "status offline_response = 503"
    by (simp add: offline_response_def)
  with classified cached absent given issued not_stored failed fulfilled show ?thesis
    by blast
qed

theorem cacheFirst_policy_witness:
  "fetch_listener (asset_request ''https://app.example'' ''/static/js/bundle.js'')
     = Inr (Some CACHE_FIRST)
   \<and> returned (cacheFirst offline (asset_request ''https://app.example'' ''/static/js/bundle.js'')
        (with_snapshot STATIC_CACHE
           (asset_request ''https://app.example'' ''/static/js/bundle.js'') (reply 200 ''kept'')))
       = Inr (reply 200 ''kept'')
   \<and> fetches (effects (settled (cacheFirst offline
        (asset_request ''https://app.example'' ''/static/js/bundle.js'')
        (with_snapshot STATIC_CACHE
           (asset_request ''https://app.example'' ''/static/js/bundle.js'') (reply 200 ''kept''))))) = []
   \<and> returned (cacheFirst (serving (reply 200 ''code''))
        (asset_request ''https://app.example'' ''/static/js/bundle.js'') fresh)
       = Inr (reply 200 ''code'')
   \<and> fetches (effects (settled (cacheFirst (serving (reply 200 ''code''))
        (asset_request ''https://app.example'' ''/static/js/bundle.js'') fresh)))
       = [asset_request ''https://app.example'' ''/static/js/bundle.js'']
   \<and> put_accepted (asset_request ''https://app.example'' ''/static/js/bundle.js'')
        (reply 200 ''code'')
   \<and> tier (settled (cacheFirst (serving (reply 200 ''code''))
        (asset_request ''https://app.example'' ''/static/js/bundle.js'') fresh))
        STATIC_CACHE (url (asset_request ''https://app.example'' ''/static/js/bundle.js''))
       = Some (reply 200 ''code'')
   \<and> returned (cacheFirst offline
        (asset_request ''https://app.example'' ''/static/js/bundle.js'') fresh)
       = Inr offline_response"
proof -
  let ?r = "asset_request ''https://app.example'' ''/static/js/bundle.js''"
  let ?w = "with_snapshot STATIC_CACHE ?r (reply 200 ''kept'')"
  have get: "req_method ?r = ''GET''"
    by (simp add: asset_request_def)
  have static: "isStaticAsset ?r"
    by (simp add: asset_request_def isStaticAsset_def static_extensions_def endsWith_def)
  have ok: "ok (reply 200 ''code'')"
    by (simp add: ok_def reply_def)
  have accepted: "put_accepted ?r (reply 200 ''code'')"
    by (simp add: put_accepted_def example_cacheable)
  have hit: "storage_match (caches ?w) (url ?r) = Some (reply 200 ''kept'')"
    by (simp add: with_snapshot_def)
  have miss: "storage_match (caches fresh) (url ?r) = None"
    by (simp add: fresh_def)
  have none: "fetches (effects ?w) = []" "fetches (effects fresh) = []"
    by (simp_all add: with_snapshot_def fresh_def)
  from cacheFirst_policy [OF get static, of ?w offline]
    cacheFirst_policy [OF get static, of fresh "serving (reply 200 ''code'')"]
    cacheFirst_policy [OF get static, of fresh offline]
    ok accepted hit miss none
  show ?thesis
    by (simp add: serving_def offline_def)
qed

text \<open>
  C7, at the moment of the return: the bundle is fetched with status 200 and
  returned, and the static tier does not hold it, since the write is only issued.
\<close>

theorem cacheFirst_counterexample:
  "req_method (asset_request ''https://app.example'' ''/static/js/bundle.js'') = ''GET''
   \<and> isStaticAsset (asset_request ''https://app.example'' ''/static/js/bundle.js'')
   \<and> ok (reply 200 ''code'')
   \<and> returned (cacheFirst (serving (reply 200 ''code''))
        (asset_request ''https://app.example'' ''/static/js/bundle.js'') fresh)
       = Inr (reply 200 ''code'')
   \<and> tier (at_return (cacheFirst (serving (reply 200 ''code''))
        (asset_request ''https://app.example'' ''/static/js/bundle.js'') fresh))
        STATIC_CACHE (url (asset_request ''https://app.example'' ''/static/js/bundle.js''))
       = None"
proof -
  let ?r = "asset_request ''https://app.example'' ''/static/js/bundle.js''"
  have get: "req_method ?r = ''GET''"
    by (simp add: asset_request_def)
  have static: "isStaticAsset ?r"
    by (simp add: asset_request_def isStaticAsset_def static_extensions_def endsWith_def)
  have ok: "ok (reply 200 ''code'')"
    by (simp add: ok_def reply_def)
  have miss: "storage_match (caches fresh) (url ?r) = None"
    by (simp add: fresh_def)
  have run: "cacheFirst (serving (reply 200 ''code'')) ?r fresh =
      \<lparr>returned = Inr (reply 200 ''code''),
       at_return = cache_put STATIC_CACHE ?r (reply 200 ''code'')
         (caches_open STATIC_CACHE (emit (Fetch ?r) (emit (CachesMatch (url ?r)) fresh))),
       settled = put_completed STATIC_CACHE ?r (reply 200 ''code'')
         (cache_put STATIC_CACHE ?r (reply 200 ''code'')
            (caches_open STATIC_CACHE (emit (Fetch ?r) (emit (CachesMatch (url ?r)) fresh))))\<rparr>"
    using miss ok by (intro cacheFirst_fetched_ok) (simp_all add: serving_def)
  have "tier (at_return (cacheFirst (serving (reply 200 ''code'')) ?r fresh)) STATIC_CACHE (url ?r)
      = tier fresh STATIC_CACHE (url ?r)"
    by (simp add: run)
  then have "tier (at_return (cacheFirst (serving (reply 200 ''code'')) ?r fresh))
      STATIC_CACHE (url ?r) = None"
    by (simp add: tier_def fresh_def)
  with get static ok run show ?thesis
    by simp
qed

section \<open>Stale-while-revalidate\<close>





section \<open>Classification is partial\<close>

text \<open>
  C9. A GET request that is neither a static asset nor an API path and that has no
  accept header makes the fetch listener throw a TypeError, raised by
  \<open>isHTMLRequest\<close>; it is not answered by the default network-first branch.
\<close>

theorem fetch_listener_throws:
  assumes "req_method r = ''GET''" and "\<not> isStaticAsset r" and "\<not> isAPIRequest r"
    and "map_of (req_headers r) ''accept'' = None"
  shows "(\<exists>msg. fetch_listener r = Inl (TypeError msg))
       \<and> fetch_listener r \<noteq> Inr (Some NETWORK_FIRST)"
  using assms by (simp add: fetch_listener_def isHTMLRequest_def)

theorem fetch_listener_throws_witness:
  "req_method (asset_request ''https://app.example'' ''/dashboard'') = ''GET''
   \<and> \<not> isStaticAsset (asset_request ''https://app.example'' ''/dashboard'')
   \<and> \<not> isAPIRequest (asset_request ''https://app.example'' ''/dashboard'')
   \<and> map_of (req_headers (asset_request ''https://app.example'' ''/dashboard'')) ''accept'' = None
   \<and> (\<exists>msg. fetch_listener (asset_request ''https://app.example'' ''/dashboard'')
          = Inl (TypeError msg))
   \<and> fetch_listener (asset_request ''https://app.example'' ''/dashboard'')
        \<noteq> Inr (Some NETWORK_FIRST)"
proof -
  let ?r = "asset_request ''https://app.example'' ''/dashboard''"
  have get: "req_method ?r = ''GET''"
    by (simp add: asset_request_def)
  have static: "\<not> isStaticAsset ?r"
    by (simp add: asset_request_def isStaticAsset_def static_extensions_def endsWith_def)
  have api: "\<not> isAPIRequest ?r"
    by (simp add: asset_request_def isAPIRequest_def)
  have accept: "map_of (req_headers ?r) ''accept'' = None"
    by (simp add: asset_request_def)
  from fetch_listener_throws [OF get static api accept] get static api accept
  show ?thesis
    by simp
qed

section \<open>Activation\<close>

lemma caches_caches_delete [simp]:
  "caches (caches_delete name w) = filter (\<lambda>(n, c). n \<noteq> name) (caches w)"
  by (simp add: caches_delete_def AList.delete_eq case_prod_unfold eq_commute)

lemma effects_caches_delete [simp]:
  "effects (caches_delete name w) = effects w @ [CachesDelete name]"
  by (simp add: caches_delete_def)

lemma delete_old_caches_caches:
  "caches (delete_old_caches ns w) =
     filter (\<lambda>(n, c). n \<in> set registry \<or> n \<notin> set ns) (caches w)"
proof (induction ns arbitrary: w)
  case Nil
  then show ?case by simp
next
  case (Cons n ns)
  show ?case
    by (auto simp: Cons.IH registry_def intro!: filter_cong)
qed

lemma delete_old_caches_effects:
  "effects (delete_old_caches ns w) =
     effects w @ map CachesDelete (filter (\<lambda>n. n \<notin> set registry) ns)"
  by (induction ns arbitrary: w) (simp_all add: registry_def)

lemma activate_caches:
  "caches (snd (activate w)) = filter (\<lambda>(n, c). n \<in> set registry) (caches w)"
proof -
  have "caches (snd (activate w)) =
      filter (\<lambda>(n, c). n \<in> set registry \<or> n \<notin> fst ` set (caches w)) (caches w)"
    by (simp add: activate_def caches_keys_def delete_old_caches_caches)
  also have "\<dots> = filter (\<lambda>(n, c). n \<in> set registry) (caches w)"
    by (rule filter_cong) (auto simp: rev_image_eqI)
  finally show ?thesis .
qed

text \<open>
  C3 (as amended). Activation deletes exactly the present tier names that are not
  in the registry, in the order \<open>caches.keys()\<close> lists them, and keeps every
  present tier whose name is in the registry, with its contents: the tiers left are
  the registry tiers that were present before. Activation creates no tier, so the
  three registry tiers are exactly what is left when all three were present.
  After the deletions it claims the open clients.
\<close>

theorem activate_reconciles:
  "fst (activate w) = Inr ()
   \<and> effects (snd (activate w)) =
       effects w @ [CachesKeys]
         @ map CachesDelete (filter (\<lambda>n. n \<notin> set registry) (map fst (caches w)))
         @ [ClientsClaim]
   \<and> caches (snd (activate w)) = filter (\<lambda>(n, c). n \<in> set registry) (caches w)
   \<and> (set registry \<subseteq> fst ` set (caches w) \<longrightarrow>
        fst ` set (caches (snd (activate w))) = set registry)"
proof -
  have "fst ` set (filter (\<lambda>(n, c). n \<in> set registry) (caches w)) = set registry"
    if "set registry \<subseteq> fst ` set (caches w)"
    using that by force
  then show ?thesis
    by (simp add: activate_caches)
       (simp add: activate_def caches_keys_def delete_old_caches_effects)
qed

theorem activate_reconciles_witness:
  "set registry \<subseteq> fst ` set (caches (tiers_named [''static-v1'', ''api-v1'', ''dynamic-v1'', ''legacy-v0'']))
   \<and> map fst (caches (snd (activate
        (tiers_named [''static-v1'', ''api-v1'', ''dynamic-v1'', ''legacy-v0'']))))
       = [''static-v1'', ''api-v1'', ''dynamic-v1'']
   \<and> effects (snd (activate
        (tiers_named [''static-v1'', ''api-v1'', ''dynamic-v1'', ''legacy-v0''])))
       = [CachesKeys, CachesDelete ''legacy-v0'', ClientsClaim]
   \<and> fst ` set (caches (snd (activate
        (tiers_named [''static-v1'', ''api-v1'', ''dynamic-v1'', ''legacy-v0'']))))
       = set registry"
  using activate_reconciles [of "tiers_named [''static-v1'', ''api-v1'', ''dynamic-v1'', ''legacy-v0'']"]
  by (simp add: tiers_named_def registry_def STATIC_CACHE_def API_CACHE_def DYNAMIC_CACHE_def)

text \<open>
  C3, where a registry tier is not present: after an install only \<open>static-v1\<close>
  exists beside a tier of an older version, and activation leaves \<open>static-v1\<close>
  alone, not the three registry tiers.
\<close>

theorem activate_counterexample:
  "map fst (caches (snd (activate (tiers_named [''trading-platform-v1'', ''static-v1''])))) = [''static-v1'']
   \<and> set [''static-v1''] \<noteq> {''static-v1'', ''api-v1'', ''dynamic-v1''}"
  by (simp add: activate_caches tiers_named_def registry_def STATIC_CACHE_def API_CACHE_def
        DYNAMIC_CACHE_def)

section \<open>Install\<close>

lemma effects_fold_fetch:
  "effects (fold (\<lambda>r. emit (Fetch r)) rs w) = effects w @ map Fetch rs"
  by (induction rs arbitrary: w) simp_all

lemma caches_fold_fetch:
  "caches (fold (\<lambda>r. emit (Fetch r)) rs w) = caches w"
  by (induction rs arbitrary: w) simp_all

lemma console_fold_fetch:
  "console (fold (\<lambda>r. emit (Fetch r)) rs w) = console w"
  by (induction rs arbitrary: w) simp_all

lemma effects_fold_store:
  "effects (fold (\<lambda>(r, resp). store_snapshot name r resp) stored w) = effects w"
  by (induction stored arbitrary: w) (simp_all add: case_prod_unfold)

lemma console_fold_store:
  "console (fold (\<lambda>(r, resp). store_snapshot name r resp) stored w) = console w"
  by (induction stored arbitrary: w) (simp_all add: case_prod_unfold)

lemma addAll_responses_None:
  "addAll_responses net rs = None \<longleftrightarrow>
     (\<exists>r \<in> set rs. case net r of Inl e \<Rightarrow> True | Inr resp \<Rightarrow> \<not> (ok resp \<and> response_cacheable resp))"
  by (induction rs) (auto split: sum.splits)

lemma addAll_responses_Some:
  assumes "addAll_responses net rs = Some stored"
  shows "stored = map (\<lambda>r. (r, projr (net r))) rs"
  using assms
  by (induction rs arbitrary: stored) (auto split: sum.splits if_splits)

text \<open>One failing entry makes \<open>cache.addAll\<close> reject and leave the storage alone.\<close>

lemma cache_addAll_rejects:
  assumes "r \<in> set rs" and "fetch_fails net r"
  shows "fst (cache_addAll name rs net w) \<noteq> Inr ()"
    and "caches (snd (cache_addAll name rs net w)) = caches w"
    and "console (snd (cache_addAll name rs net w)) = console w"
    and "effects (snd (cache_addAll name rs net w)) =
           effects w @ (if list_all request_cacheable rs then map Fetch rs else [])"
proof -
  have "addAll_responses net rs = None" if "list_all request_cacheable rs"
  proof -
    from that assms(1) have "request_cacheable r"
      by (simp add: list_all_iff)
    with assms(2)
    have "case net r of Inl e \<Rightarrow> True | Inr resp \<Rightarrow> \<not> (ok resp \<and> response_cacheable resp)"
      by (simp add: fetch_fails_def)
    with assms(1) show ?thesis
      unfolding addAll_responses_None by blast
  qed
  then show "fst (cache_addAll name rs net w) \<noteq> Inr ()"
    and "caches (snd (cache_addAll name rs net w)) = caches w"
    and "console (snd (cache_addAll name rs net w)) = console w"
    and "effects (snd (cache_addAll name rs net w)) =
           effects w @ (if list_all request_cacheable rs then map Fetch rs else [])"
    by (simp_all add: cache_addAll_def Let_def caches_fold_fetch console_fold_fetch
          effects_fold_fetch)
qed

lemma cache_addAll_stores:
  assumes "\<forall>r \<in> set rs. \<not> fetch_fails net r"
  shows "cache_addAll name rs net w =
           (Inr (), fold (\<lambda>(r, resp). store_snapshot name r resp)
                      (map (\<lambda>r. (r, projr (net r))) rs) (fold (\<lambda>r. emit (Fetch r)) rs w))"
proof -
  from assms have cacheable: "list_all request_cacheable rs"
    by (auto simp: list_all_iff fetch_fails_def)
  from assms have "addAll_responses net rs \<noteq> None"
    unfolding addAll_responses_None by (auto simp: fetch_fails_def)
  then obtain stored where stored: "addAll_responses net rs = Some stored"
    by blast
  then have "stored = map (\<lambda>r. (r, projr (net r))) rs"
    by (rule addAll_responses_Some)
  with stored cacheable show ?thesis
    by (simp add: cache_addAll_def Let_def)
qed

lemma install_rejected:
  assumes "r \<in> set (manifest_requests org)" and "fetch_fails net r"
  shows "install org net w =
           (Inr (), console_log ''Failed to cache static assets:''
              (snd (cache_addAll STATIC_CACHE (manifest_requests org) net
                 (console_log ''Caching static assets''
                   (caches_open STATIC_CACHE (console_log ''Service Worker installing...'' w))))))"
proof -
  let ?w1 = "console_log ''Caching static assets''
      (caches_open STATIC_CACHE (console_log ''Service Worker installing...'' w))"
  from assms have "fst (cache_addAll STATIC_CACHE (manifest_requests org) net ?w1) \<noteq> Inr ()"
    by (rule cache_addAll_rejects)
  then show ?thesis
    by (cases "cache_addAll STATIC_CACHE (manifest_requests org) net ?w1")
       (auto simp: install_def manifest_requests_def split: sum.splits)
qed

lemma caches_caches_open_console [simp]:
  "caches (caches_open name (console_log s w)) = caches (caches_open name w)"
  by (simp add: caches_open_def)

lemma tier_fold_store:
  assumes "\<exists>c. map_of (caches w) name = Some c"
  shows "tier (fold (\<lambda>(r, resp). store_snapshot name r resp) stored w) name k =
           (case map_of (rev (map (\<lambda>(r, resp). (url r, resp)) stored)) k of
              Some v \<Rightarrow> Some v
            | None \<Rightarrow> tier w name k)"
  using assms
proof (induction stored arbitrary: w)
  case Nil
  then show ?case by simp
next
  case (Cons x stored)
  obtain r resp where x: "x = (r, resp)"
    by (cases x)
  from Cons.prems obtain c where c: "map_of (caches w) name = Some c"
    by blast
  have "\<exists>c. map_of (caches (store_snapshot name r resp w)) name = Some c"
    using Cons.prems by (rule store_snapshot_keeps_tier)
  then have "tier (fold (\<lambda>(r, resp). store_snapshot name r resp) stored
        (store_snapshot name r resp w)) name k =
      (case map_of (rev (map (\<lambda>(r, resp). (url r, resp)) stored)) k of
         Some v \<Rightarrow> Some v
       | None \<Rightarrow> tier (store_snapshot name r resp w) name k)"
    by (rule Cons.IH)
  then show ?case
    by (simp add: x tier_store_snapshot [OF c] map_add_def split: option.splits)
qed

lemma install_fulfils: "fst (install_event org net w) = Installed"
  by (simp add: install_event_def install_def split: prod.splits sum.splits)

lemma manifest_lookup:
  assumes "path \<in> set STATIC_ASSETS"
  shows "map_of (rev (map (\<lambda>(r, resp). (url r, resp))
            (map (\<lambda>r. (r, projr (net r))) (manifest_requests org))))
           (url (asset_request org path))
         = Some (projr (net (asset_request org path)))"
  using assms
  by (auto simp: manifest_requests_def STATIC_ASSETS_def asset_request_def)

text \<open>
  C1 (as amended). The promise the install listener hands to \<open>waitUntil\<close> ends
  in a \<open>catch\<close> that logs the error, so it always fulfils and the install always
  completes. When the fetch of any manifest entry fails, \<open>cache.addAll\<close> writes no
  entry at all: every tier holds what it held before the install (the static tier
  is opened, and is empty if it did not exist), \<open>skipWaiting\<close> is not called, and
  the console shows the failure. When every fetch succeeds, every manifest entry
  is stored, \<open>skipWaiting\<close> is called and the console shows the success.
\<close>

theorem install_all_or_nothing:
  "fst (install_event org net w) = Installed
   \<and> ((\<exists>path \<in> set STATIC_ASSETS. fetch_fails net (asset_request org path)) \<longrightarrow>
         caches (snd (install_event org net w)) = caches (caches_open STATIC_CACHE w)
       \<and> (\<forall>n k. tier (snd (install_event org net w)) n k = tier w n k)
       \<and> effects (snd (install_event org net w)) =
           effects w @ [CachesOpen STATIC_CACHE]
             @ (if list_all request_cacheable (manifest_requests org)
                then map Fetch (manifest_requests org) else [])
       \<and> console (snd (install_event org net w)) =
           console w @ [''Service Worker installing...'', ''Caching static assets'',
                        ''Failed to cache static assets:''])
   \<and> ((\<forall>path \<in> set STATIC_ASSETS. \<not> fetch_fails net (asset_request org path)) \<longrightarrow>
         (\<forall>path \<in> set STATIC_ASSETS. \<exists>resp.
            net (asset_request org path) = Inr resp
          \<and> tier (snd (install_event org net w)) STATIC_CACHE (url (asset_request org path))
              = Some resp)
       \<and> last (effects (snd (install_event org net w))) = SkipWaiting
       \<and> console (snd (install_event org net w)) =
           console w @ [''Service Worker installing...'', ''Caching static assets'',
                        ''Static assets cached successfully''])"
proof -
  let ?w' = "snd (install_event org net w)"
  let ?w1 = "console_log ''Caching static assets''
      (caches_open STATIC_CACHE (console_log ''Service Worker installing...'' w))"
  have rejected: "caches ?w' = caches (caches_open STATIC_CACHE w)
      \<and> (\<forall>n k. tier ?w' n k = tier w n k)
      \<and> effects ?w' = effects w @ [CachesOpen STATIC_CACHE]
          @ (if list_all request_cacheable (manifest_requests org)
             then map Fetch (manifest_requests org) else [])
      \<and> console ?w' = console w @ [''Service Worker installing...'', ''Caching static assets'',
          ''Failed to cache static assets:'']"
    if "path \<in> set STATIC_ASSETS" and "fetch_fails net (asset_request org path)" for path
  proof -
    from that(1) have entry: "asset_request org path \<in> set (manifest_requests org)"
      by (simp add: manifest_requests_def)
    with that(2) have unchanged: "caches ?w' = caches (caches_open STATIC_CACHE w)"
      by (simp add: install_event_def install_rejected cache_addAll_rejects)
    then have "tier ?w' n k = tier (caches_open STATIC_CACHE w) n k" for n k
      by (simp add: tier_def)
    then have "\<forall>n k. tier ?w' n k = tier w n k"
      by simp
    with entry that(2) unchanged show ?thesis
      by (simp add: install_event_def install_rejected cache_addAll_rejects)
  qed
  have stored: "(\<forall>path \<in> set STATIC_ASSETS. \<exists>resp.
        net (asset_request org path) = Inr resp
      \<and> tier ?w' STATIC_CACHE (url (asset_request org path)) = Some resp)
      \<and> last (effects ?w') = SkipWaiting
      \<and> console ?w' = console w @ [''Service Worker installing...'', ''Caching static assets'',
          ''Static assets cached successfully'']"
    if all: "\<forall>path \<in> set STATIC_ASSETS. \<not> fetch_fails net (asset_request org path)"
  proof -
    from all have ok: "\<forall>r \<in> set (manifest_requests org). \<not> fetch_fails net r"
      by (simp add: manifest_requests_def)
    have w': "?w' = emit SkipWaiting (console_log ''Static assets cached successfully''
        (fold (\<lambda>(r, resp). store_snapshot STATIC_CACHE r resp)
           (map (\<lambda>r. (r, projr (net r))) (manifest_requests org))
           (fold (\<lambda>r. emit (Fetch r)) (manifest_requests org) ?w1)))"
      using cache_addAll_stores [OF ok, of STATIC_CACHE ?w1]
      by (simp add: install_event_def install_def manifest_requests_def)
    have opened: "\<exists>c. map_of (caches (fold (\<lambda>r. emit (Fetch r)) (manifest_requests org) ?w1))
        STATIC_CACHE = Some c"
      using caches_open_has_tier [of STATIC_CACHE w] by (simp add: caches_fold_fetch)
    have "\<exists>resp. net (asset_request org path) = Inr resp
        \<and> tier ?w' STATIC_CACHE (url (asset_request org path)) = Some resp"
      if path: "path \<in> set STATIC_ASSETS" for path
    proof -
      from all path have "\<not> fetch_fails net (asset_request org path)"
        by blast
      then obtain resp where resp: "net (asset_request org path) = Inr resp"
        by (cases "net (asset_request org path)") (auto simp: fetch_fails_def)
      have "tier ?w' STATIC_CACHE (url (asset_request org path))
          = Some (projr (net (asset_request org path)))"
        unfolding w' tier_emit tier_console_log tier_fold_store [OF opened] manifest_lookup [OF path]
        by simp
      with resp show ?thesis
        by simp
    qed
    moreover have "last (effects ?w') = SkipWaiting"
      by (simp add: w')
    moreover have "console ?w' = console w @ [''Service Worker installing...'',
        ''Caching static assets'', ''Static assets cached successfully'']"
      by (simp add: w' console_fold_store console_fold_fetch)
    ultimately show ?thesis
      by blast
  qed
  have completes: "fst (install_event org net w) = Installed"
    by (rule install_fulfils)
  from rejected
  have failing: "(\<exists>path \<in> set STATIC_ASSETS. fetch_fails net (asset_request org path)) \<longrightarrow>
      caches ?w' = caches (caches_open STATIC_CACHE w)
      \<and> (\<forall>n k. tier ?w' n k = tier w n k)
      \<and> effects ?w' = effects w @ [CachesOpen STATIC_CACHE]
          @ (if list_all request_cacheable (manifest_requests org)
             then map Fetch (manifest_requests org) else [])
      \<and> console ?w' = console w @ [''Service Worker installing...'', ''Caching static assets'',
          ''Failed to cache static assets:'']"
    by blast
  from stored
  have succeeding: "(\<forall>path \<in> set STATIC_ASSETS. \<not> fetch_fails net (asset_request org path)) \<longrightarrow>
      (\<forall>path \<in> set STATIC_ASSETS. \<exists>resp.
        net (asset_request org path) = Inr resp
      \<and> tier ?w' STATIC_CACHE (url (asset_request org path)) = Some resp)
      \<and> last (effects ?w') = SkipWaiting
      \<and> console ?w' = console w @ [''Service Worker installing...'', ''Caching static assets'',
          ''Static assets cached successfully'']"
    by blast
  from completes failing succeeding show ?thesis
    by (rule conjI [OF _ conjI])
qed

theorem install_all_or_nothing_witness:
  "fetch_fails (rejecting_path ''/static/css/main.css'')
     (asset_request ''https://app.example'' ''/static/css/main.css'')
   \<and> fst (install_event ''https://app.example'' (rejecting_path ''/static/css/main.css'')
        (with_snapshot STATIC_CACHE (asset_request ''https://app.example'' ''/favicon.ico'')
           (reply 200 ''icon''))) = Installed
   \<and> caches (snd (install_event ''https://app.example'' (rejecting_path ''/static/css/main.css'')
        (with_snapshot STATIC_CACHE (asset_request ''https://app.example'' ''/favicon.ico'')
           (reply 200 ''icon''))))
       = [(STATIC_CACHE, [(url (asset_request ''https://app.example'' ''/favicon.ico''),
                           reply 200 ''icon'')])]
   \<and> tier (snd (install_event ''https://app.example'' (rejecting_path ''/static/css/main.css'')
        (with_snapshot STATIC_CACHE (asset_request ''https://app.example'' ''/favicon.ico'')
           (reply 200 ''icon''))))
        STATIC_CACHE (url (asset_request ''https://app.example'' ''/index.html'')) = None
   \<and> console (snd (install_event ''https://app.example'' (rejecting_path ''/static/css/main.css'')
        (with_snapshot STATIC_CACHE (asset_request ''https://app.example'' ''/favicon.ico'')
           (reply 200 ''icon''))))
       = [''Service Worker installing...'', ''Caching static assets'',
          ''Failed to cache static assets:'']
   \<and> SkipWaiting \<notin> set (effects (snd (install_event ''https://app.example''
        (rejecting_path ''/static/css/main.css'')
        (with_snapshot STATIC_CACHE (asset_request ''https://app.example'' ''/favicon.ico'')
           (reply 200 ''icon'')))))
   \<and> fst (install_event ''https://app.example'' (serving (reply 200 ''asset'')) fresh) = Installed
   \<and> tier (snd (install_event ''https://app.example'' (serving (reply 200 ''asset'')) fresh))
        STATIC_CACHE (url (asset_request ''https://app.example'' ''/index.html''))
       = Some (reply 200 ''asset'')
   \<and> tier (snd (install_event ''https://app.example'' (serving (reply 200 ''asset'')) fresh))
        STATIC_CACHE (url (asset_request ''https://app.example'' ''/favicon.ico''))
       = Some (reply 200 ''asset'')
   \<and> last (effects (snd (install_event ''https://app.example'' (serving (reply 200 ''asset'')) fresh)))
       = SkipWaiting"
proof -
  let ?org = "''https://app.example''"
  let ?up = "serving (reply 200 ''asset'')"
  let ?net = "rejecting_path ''/static/css/main.css''"
  let ?w = "with_snapshot STATIC_CACHE (asset_request ?org ''/favicon.ico'') (reply 200 ''icon'')"
  note down = install_all_or_nothing [of ?org ?net ?w]
  note up = install_all_or_nothing [of ?org ?up fresh]
  have fails: "fetch_fails ?net (asset_request ?org ''/static/css/main.css'')"
    by (simp add: fetch_fails_def rejecting_path_def asset_request_def reply_def ok_def)
  then have some: "\<exists>path \<in> set STATIC_ASSETS. fetch_fails ?net (asset_request ?org path)"
    by (simp add: STATIC_ASSETS_def)
  have all: "\<forall>path \<in> set STATIC_ASSETS. \<not> fetch_fails ?up (asset_request ?org path)"
    by (simp add: fetch_fails_def serving_def example_cacheable) (simp add: reply_def ok_def)
  have installed: "fst (install_event ?org ?net ?w) = Installed"
    "fst (install_event ?org ?up fresh) = Installed"
    using down up by blast+
  from down some
  have unchanged: "caches (snd (install_event ?org ?net ?w)) = caches (caches_open STATIC_CACHE ?w)"
    and tiers: "\<forall>n k. tier (snd (install_event ?org ?net ?w)) n k = tier ?w n k"
    and calls: "effects (snd (install_event ?org ?net ?w)) =
      effects ?w @ [CachesOpen STATIC_CACHE]
        @ (if list_all request_cacheable (manifest_requests ?org)
           then map Fetch (manifest_requests ?org) else [])"
    and lines: "console (snd (install_event ?org ?net ?w)) =
      console ?w @ [''Service Worker installing...'', ''Caching static assets'',
                    ''Failed to cache static assets:'']"
    by blast+
  have "caches (caches_open STATIC_CACHE ?w)
      = [(STATIC_CACHE, [(url (asset_request ?org ''/favicon.ico''), reply 200 ''icon'')])]"
    by (simp add: caches_open_def with_snapshot_def)
  with unchanged
  have same: "caches (snd (install_event ?org ?net ?w))
      = [(STATIC_CACHE, [(url (asset_request ?org ''/favicon.ico''), reply 200 ''icon'')])]"
    by (simp only:)
  have "tier ?w STATIC_CACHE (url (asset_request ?org ''/index.html'')) = None"
    by (simp add: tier_def with_snapshot_def asset_request_def)
  with tiers
  have absent: "tier (snd (install_event ?org ?net ?w)) STATIC_CACHE
      (url (asset_request ?org ''/index.html'')) = None"
    by (simp only:)
  have "console ?w = []" "effects ?w = []"
    by (simp_all add: with_snapshot_def)
  with calls lines
  have waiting: "SkipWaiting \<notin> set (effects (snd (install_event ?org ?net ?w)))"
    and logged: "console (snd (install_event ?org ?net ?w)) =
      [''Service Worker installing...'', ''Caching static assets'',
       ''Failed to cache static assets:'']"
    by (auto simp: manifest_requests_def)
  from up all
  have every: "\<forall>path \<in> set STATIC_ASSETS. \<exists>resp. ?up (asset_request ?org path) = Inr resp
      \<and> tier (snd (install_event ?org ?up fresh)) STATIC_CACHE (url (asset_request ?org path)) = Some resp"
    and skip: "last (effects (snd (install_event ?org ?up fresh))) = SkipWaiting"
    by blast+
  from every
  have "tier (snd (install_event ?org ?up fresh)) STATIC_CACHE (url (asset_request ?org ''/index.html''))
      = Some (reply 200 ''asset'')"
    and "tier (snd (install_event ?org ?up fresh)) STATIC_CACHE (url (asset_request ?org ''/favicon.ico''))
      = Some (reply 200 ''asset'')"
    by (auto simp: STATIC_ASSETS_def serving_def)
  with fails installed same absent logged waiting skip show ?thesis
    by simp
qed

text \<open>
  C1, with the network unreachable: no manifest entry can be fetched, and the
  install still completes, with the static tier empty.
\<close>

theorem install_counterexample:
  "fetch_fails offline (asset_request ''https://app.example'' ''/favicon.ico'')
   \<and> fst (install_event ''https://app.example'' offline fresh) = Installed
   \<and> caches (snd (install_event ''https://app.example'' offline fresh)) = [(''static-v1'', [])]"
proof -
  have "fetch_fails offline (asset_request ''https://app.example'' ''/favicon.ico'')"
    by (simp add: fetch_fails_def offline_def)
  moreover have "list_all request_cacheable (map (asset_request ''https://app.example'') STATIC_ASSETS)"
    by (simp add: list_all_iff example_cacheable)
  then have "caches (snd (install_event ''https://app.example'' offline fresh)) = [(''static-v1'', [])]"
    by (simp add: install_event_def install_def cache_addAll_def caches_fold_fetch Let_def)
       (simp add: offline_def STATIC_ASSETS_def fresh_def caches_open_def STATIC_CACHE_def)
  ultimately show ?thesis
    by (simp add: install_fulfils)
qed

section \<open>Replaying deferred actions\<close>

lemma removals_append: "removals (xs @ ys) = removals xs @ removals ys"
  by (induction xs rule: removals.induct) simp_all

lemma syncAction_outcome:
  "syncAction net a w =
     (case net (action_request a) of
        Inl e \<Rightarrow> (Inl e, emit (Fetch (action_request a)) w)
      | Inr resp \<Rightarrow>
          (if ok resp then Inr resp else Inl (Error (''Sync failed: '' @ decimal (status resp))),
           emit (Fetch (action_request a)) w))"
  by (simp add: syncAction_def fetch_def split: sum.splits)

lemma sync_step_effects:
  "effects (case syncAction net a w of
              (Inr resp, w1) \<Rightarrow> removePendingAction (action_id a) w1
            | (Inl e, w1) \<Rightarrow> console_log ''Failed to sync action:'' w1)
     = effects w @ Fetch (action_request a)
         # (if replay_succeeds net a then [RemovePendingAction (action_id a)] else [])"
  by (simp add: syncAction_outcome replay_succeeds_def removePendingAction_def split: sum.splits)

lemma sync_pending_effects:
  "effects (sync_pending net acts w) =
     effects w @ concat (map (\<lambda>a. Fetch (action_request a)
         # (if replay_succeeds net a then [RemovePendingAction (action_id a)] else [])) acts)"
proof (induction acts arbitrary: w)
  case Nil
  then show ?case by simp
next
  case (Cons a acts)
  show ?case
    by (simp only: sync_pending.simps Cons.IH sync_step_effects) simp
qed

lemma fetches_replay:
  "fetches (concat (map (\<lambda>a. Fetch (action_request a)
       # (if replay_succeeds net a then [RemovePendingAction (action_id a)] else [])) acts))
     = map action_request acts"
  by (induction acts) simp_all

lemma removals_replay:
  "removals (concat (map (\<lambda>a. Fetch (action_request a)
       # (if replay_succeeds net a then [RemovePendingAction (action_id a)] else [])) acts))
     = map action_id (filter (replay_succeeds net) acts)"
  by (induction acts) simp_all

text \<open>
  C4. The replay loop, for every batch of actions handed to it: every action is
  fetched, in the order of the batch, whatever the outcome of the actions before
  it; \<open>removePendingAction\<close> is called for the identifiers of exactly the actions
  whose fetch resolved with a 2xx response, in that order, and for no action whose
  fetch rejected or resolved with another status.
\<close>

theorem sync_pending_replays:
  "fetches (effects (sync_pending net acts w)) = fetches (effects w) @ map action_request acts
   \<and> removals (effects (sync_pending net acts w))
       = removals (effects w) @ map action_id (filter (replay_succeeds net) acts)
   \<and> caches (sync_pending net acts w) = caches w"
proof -
  have "caches (sync_pending net acts w) = caches w"
    by (induction acts arbitrary: w)
       (simp_all add: syncAction_outcome removePendingAction_def split: sum.splits)
  then show ?thesis
    by (simp add: sync_pending_effects fetches_append removals_append fetches_replay
          removals_replay)
qed

theorem sync_pending_replays_witness:
  "fetches (effects (sync_pending (rejecting_path ''/api/orders/2'')
       [queued 1 ''/api/orders/1'', queued 2 ''/api/orders/2'', queued 3 ''/api/orders/3''] fresh))
     = map action_request
         [queued 1 ''/api/orders/1'', queued 2 ''/api/orders/2'', queued 3 ''/api/orders/3'']
   \<and> removals (effects (sync_pending (rejecting_path ''/api/orders/2'')
       [queued 1 ''/api/orders/1'', queued 2 ''/api/orders/2'', queued 3 ''/api/orders/3''] fresh))
     = [1, 3]"
  using sync_pending_replays [of "rejecting_path ''/api/orders/2''"
      "[queued 1 ''/api/orders/1'', queued 2 ''/api/orders/2'', queued 3 ''/api/orders/3'']" fresh]
  by (simp add: replay_succeeds_def rejecting_path_def action_request_def queued_def fresh_def
        reply_def ok_def)

text \<open>
  As the source stands, \<open>getPendingActions\<close> hands the loop the empty batch, so a
  run of \<open>doBackgroundSync\<close> makes no host call.
\<close>

lemma doBackgroundSync_as_written: "effects (doBackgroundSync net w) = effects w"
  by (simp add: doBackgroundSync_def getPendingActions_def)

section \<open>The rounding of doubles\<close>

text \<open>
  The rounding function is what it is meant to be: \<open>exponent\<close> is the binary
  exponent, and \<open>fl x\<close> is within half a unit in the last place of \<open>x\<close>.
\<close>

lemma bit_length_bounds:
  "0 < n \<Longrightarrow> 2 ^ (bit_length n - 1) \<le> n \<and> n < 2 ^ bit_length n"
proof (induction n rule: bit_length.induct)
  case (1 n)
  show ?case
  proof (cases "n div 2 = 0")
    case True
    with "1.prems" have "n = 1"
      by (simp add: div_eq_0_iff) 
    then show ?thesis
      by (simp add: bit_length.simps)
  next
    case False
    then have pos: "0 < n div 2"
      by simp
    with "1.IH" "1.prems"
    have IH: "2 ^ (bit_length (n div 2) - 1) \<le> n div 2" "n div 2 < 2 ^ bit_length (n div 2)"
      by simp_all
    from pos have bl: "0 < bit_length (n div 2)"
      by (simp add: bit_length.simps [of "n div 2"])
    have eq: "bit_length n = Suc (bit_length (n div 2))"
      using "1.prems" by (simp add: bit_length.simps [of n])
    from bl have "(2::nat) ^ (bit_length n - 1) = 2 * 2 ^ (bit_length (n div 2) - 1)"
      by (cases "bit_length (n div 2)") (simp_all add: eq)
    with IH show ?thesis
      by (simp add: eq) linarith
  qed
qed

lemma pow2_nat: "pow2 (int k) = 2 ^ k"
  by (simp add: pow2_def)

lemma pow2_neg: "pow2 (- int k) = 1 / 2 ^ k"
  by (cases k) (simp_all add: pow2_def nat_add_distrib)

lemma exponent_bounds:
  assumes "x \<noteq> 0"
  shows "pow2 (exponent x) \<le> \<bar>x\<bar> \<and> \<bar>x\<bar> < pow2 (exponent x + 1)"
proof (cases "1 \<le> \<bar>x\<bar>")
  case True
  define n where "n = nat \<lfloor>\<bar>x\<bar>\<rfloor>"
  from True have floor: "1 \<le> \<lfloor>\<bar>x\<bar>\<rfloor>"
    by simp
  then have n: "0 < n" "real n \<le> \<bar>x\<bar>" "\<bar>x\<bar> < real n + 1"
    by (simp_all add: n_def)
  from bit_length_bounds [OF n(1)]
  have lo: "2 ^ (bit_length n - 1) \<le> n" and hi: "n < 2 ^ bit_length n"
    by simp_all
  from n(1) have bl: "0 < bit_length n"
    by (simp add: bit_length.simps [of n])
  then have e: "exponent x = int (bit_length n - 1)"
    using True by (simp add: exponent_def n_def of_nat_diff)
  have e1: "exponent x + 1 = int (bit_length n)"
    using bl by (simp add: e)
  from lo have "real (2 ^ (bit_length n - 1)) \<le> real n"
    by (rule of_nat_mono)
  then have "(2::real) ^ (bit_length n - 1) \<le> real n"
    by (simp only: of_nat_power of_nat_numeral)
  moreover have "pow2 (exponent x) = 2 ^ (bit_length n - 1)"
    by (simp only: e pow2_nat)
  ultimately have low: "pow2 (exponent x) \<le> \<bar>x\<bar>"
    using n(2) by linarith
  from hi have "n + 1 \<le> 2 ^ bit_length n"
    by simp
  then have "real (n + 1) \<le> real (2 ^ bit_length n)"
    by (rule of_nat_mono)
  then have "real n + 1 \<le> 2 ^ bit_length n"
    by (simp only: of_nat_add of_nat_1 of_nat_power of_nat_numeral)
  moreover have "pow2 (exponent x + 1) = 2 ^ bit_length n"
    by (simp only: e1 pow2_nat)
  ultimately have "\<bar>x\<bar> < pow2 (exponent x + 1)"
    using n(3) by linarith
  with low show ?thesis
    by simp
next
  case False
  with assms have x: "0 < \<bar>x\<bar>" "\<bar>x\<bar> < 1"
    by simp_all
  define y where "y = 1 / \<bar>x\<bar>"
  from x have y: "1 < y"
    by (simp add: y_def)
  define m where "m = nat (\<lceil>y\<rceil> - 1)"
  from y have "2 \<le> \<lceil>y\<rceil>"
    by linarith
  then have m: "0 < m" "real m < y" "y \<le> real m + 1"
    by (simp_all add: m_def) linarith+
  from bit_length_bounds [OF m(1)]
  have lo: "2 ^ (bit_length m - 1) \<le> m" and hi: "m < 2 ^ bit_length m"
    by simp_all
  from m(1) have bl: "0 < bit_length m"
    by (simp add: bit_length.simps [of m])
  have e: "exponent x = - int (bit_length m)"
    using False by (simp add: exponent_def m_def y_def)
  have e1: "exponent x + 1 = - int (bit_length m - 1)"
    using bl by (simp add: e of_nat_diff)
  from hi have "m + 1 \<le> 2 ^ bit_length m"
    by simp
  then have "real (m + 1) \<le> real (2 ^ bit_length m)"
    by (rule of_nat_mono)
  then have "real m + 1 \<le> 2 ^ bit_length m"
    by (simp only: of_nat_add of_nat_1 of_nat_power of_nat_numeral)
  with m(3) have "y \<le> 2 ^ bit_length m"
    by linarith
  with y have "inverse (2 ^ bit_length m) \<le> inverse y"
    by (intro le_imp_inverse_le) simp_all
  then have "1 / 2 ^ bit_length m \<le> \<bar>x\<bar>"
    by (simp add: y_def divide_inverse)
  moreover have "pow2 (exponent x) = 1 / 2 ^ bit_length m"
    by (simp only: e pow2_neg)
  ultimately have low: "pow2 (exponent x) \<le> \<bar>x\<bar>"
    by linarith
  from lo have "real (2 ^ (bit_length m - 1)) \<le> real m"
    by (rule of_nat_mono)
  then have "(2::real) ^ (bit_length m - 1) \<le> real m"
    by (simp only: of_nat_power of_nat_numeral)
  with m(2) have "2 ^ (bit_length m - 1) < y"
    by linarith
  then have "inverse y < inverse (2 ^ (bit_length m - 1))"
    by (intro less_imp_inverse_less) simp_all
  then have "\<bar>x\<bar> < 1 / 2 ^ (bit_length m - 1)"
    by (simp add: y_def divide_inverse)
  moreover have "pow2 (exponent x + 1) = 1 / 2 ^ (bit_length m - 1)"
    by (simp only: e1 pow2_neg)
  ultimately have "\<bar>x\<bar> < pow2 (exponent x + 1)"
    by linarith
  with low show ?thesis
    by simp
qed

lemma round_half_even_near: "\<bar>of_int (round_half_even y) - y\<bar> \<le> 1 / 2"
  by (simp add: round_half_even_def Let_def)


lemma pow2_positive: "0 < pow2 k"
  by (simp add: pow2_def)

lemma fl_near:
  assumes "x \<noteq> 0"
  shows "\<bar>fl x - x\<bar> \<le> pow2 (max (exponent x - 52) (- 1074)) / 2"
proof -
  define p where "p = pow2 (max (exponent x - 52) (- 1074))"
  have p: "0 < p"
    by (simp add: p_def pow2_positive)
  have "fl x - x = (of_int (round_half_even (x / p)) - x / p) * p"
    using assms p by (simp add: fl_def p_def Let_def algebra_simps)
  then have "\<bar>fl x - x\<bar> = \<bar>of_int (round_half_even (x / p)) - x / p\<bar> * p"
    using p by (simp add: abs_mult)
  also have "\<dots> \<le> 1 / 2 * p"
    using p round_half_even_near [of "x / p"] by (intro mult_right_mono) simp_all
  finally show ?thesis
    by (simp add: p_def)
qed

section \<open>The analytics worker's responses\<close>

text \<open>Rounding to the nearest double, on the numbers of the example.\<close>

lemma fl_whole:
  "fl 70 = 70" "fl 50 = 50" "fl 20 = 20"
  by (simp_all add: fl_def exponent_def bit_length.simps pow2_def round_half_even_def Let_def)

lemma fl_two_fifths: "fl (2 / 5) = 3602879701896397 / 9007199254740992"
  by (simp add: fl_def exponent_def bit_length.simps pow2_def round_half_even_def Let_def)

lemma fl_percent: "fl (fl (2 / 5) * 100) = 40"
  by (simp add: fl_two_fifths)
     (simp add: fl_def exponent_def bit_length.simps pow2_def round_half_even_def Let_def)

lemma process_holding_X:
  assumes "map_of prices ''X'' \<in> {None, Some 0, Some 7}"
  shows "process_holding (Some prices) holding_X =
           Inr (holding.extend (holding_X\<lparr>currentPrice := Some 7\<rparr>)
                  (processed_holding.fields 70 50 20 40))"
  using assms
  by (auto simp: process_holding_def holding_X_def js_or_def js_or_number_def fl_whole fl_percent)

lemma calculatePortfolioValue_X:
  assumes "holdings data = Some [holding_X]" and "currentPrices data = Some prices"
    and "map_of prices ''X'' \<in> {None, Some 0, Some 7}"
  shows "\<exists>res. calculatePortfolioValue data = Inr res
       \<and> totalValue (summary res) = 70 \<and> totalCost (summary res) = 50
       \<and> totalGainLoss (summary res) = 20 \<and> totalGainLossPercent (summary res) = 40"
  using assms
  by (simp add: calculatePortfolioValue_def process_holding_X holding.defs processed_holding.defs
        fl_whole fl_percent)

text \<open>
  C5 (as amended). A request of type \<open>CALCULATE_PORTFOLIO_VALUE\<close> whose data holds
  the holdings \<open>[{symbol: "X", quantity: 10, averagePrice: 5, currentPrice: 7}]\<close> and a
  \<open>currentPrices\<close> object in which \<open>X\<close> has no entry, or the entry 0 or 7, is
  answered by one SUCCESS response whose summary has \<open>totalValue = 70\<close>,
  \<open>totalCost = 50\<close>, \<open>totalGainLoss = 20\<close> and \<open>totalGainLossPercent = 40\<close>.
\<close>

theorem portfolio_value_example:
  assumes "m_type m = ''CALCULATE_PORTFOLIO_VALUE''"
    and "holdings (m_data m) = Some [holding_X]"
    and "currentPrices (m_data m) = Some prices"
    and "map_of prices ''X'' \<in> {None, Some 0, Some 7}"
  shows "\<exists>res. onmessage calcs m = [SUCCESS (m_id m) (PortfolioValue res)]
       \<and> totalValue (summary res) = 70 \<and> totalCost (summary res) = 50
       \<and> totalGainLoss (summary res) = 20 \<and> totalGainLossPercent (summary res) = 40"
proof -
  from assms(2-4) obtain res where "calculatePortfolioValue (m_data m) = Inr res"
    and "totalValue (summary res) = 70" and "totalCost (summary res) = 50"
    and "totalGainLoss (summary res) = 20" and "totalGainLossPercent (summary res) = 40"
    using calculatePortfolioValue_X by blast
  with assms(1) show ?thesis
    by (simp add: onmessage_def switch_type_def)
qed

theorem portfolio_value_example_witness:
  "\<exists>res. onmessage stub_calculators
     \<lparr>m_type = ''CALCULATE_PORTFOLIO_VALUE'', m_id = 1,
      m_data = \<lparr>holdings = Some [holding_X], currentPrices = Some [],
                initialInvestment = None\<rparr>\<rparr>
       = [SUCCESS 1 (PortfolioValue res)]
     \<and> totalValue (summary res) = 70 \<and> totalCost (summary res) = 50
     \<and> totalGainLoss (summary res) = 20 \<and> totalGainLossPercent (summary res) = 40"
  using portfolio_value_example [of
      "\<lparr>m_type = ''CALCULATE_PORTFOLIO_VALUE'', m_id = 1,
        m_data = \<lparr>holdings = Some [holding_X], currentPrices = Some [],
                  initialInvestment = None\<rparr>\<rparr>" "[]" stub_calculators]
  by simp

text \<open>
  C5, on the data \<open>{holdings: [...]}\<close> alone: with no \<open>currentPrices\<close> the
  callback reads a property of \<open>undefined\<close>, and the response is an ERROR.
\<close>

theorem portfolio_value_counterexample:
  "onmessage stub_calculators
     \<lparr>m_type = ''CALCULATE_PORTFOLIO_VALUE'', m_id = 1,
      m_data = \<lparr>holdings = Some [holding_X], currentPrices = None, initialInvestment = None\<rparr>\<rparr>
   = [ERROR 1 (TypeError ''Cannot read properties of undefined (reading 'X')'')]"
  by (simp add: onmessage_def switch_type_def calculatePortfolioValue_def process_holding_def
        holding_X_def)

text \<open>A price for \<open>X\<close> in \<open>currentPrices\<close> takes precedence over the holding's own.\<close>

lemma portfolio_value_overridden:
  "\<exists>res. onmessage stub_calculators
     \<lparr>m_type = ''CALCULATE_PORTFOLIO_VALUE'', m_id = 1,
      m_data = \<lparr>holdings = Some [holding_X], currentPrices = Some [(''X'', 8)],
                initialInvestment = None\<rparr>\<rparr>
   = [SUCCESS 1 (PortfolioValue res)] \<and> totalValue (summary res) = 80"
  by (simp add: onmessage_def switch_type_def calculatePortfolioValue_def process_holding_def
        holding_X_def js_or_def js_or_number_def holding.defs processed_holding.defs)
     (simp add: fl_def exponent_def bit_length.simps pow2_def round_half_even_def Let_def)

text \<open>
  C6. Every request \<open>{type, id, data}\<close> is answered by exactly one posted message,
  which carries the request's \<open>id\<close> and is either a SUCCESS with a result or an
  ERROR with the exception caught; a request whose type is none of the seven known
  ones is answered by the ERROR \<open>Unknown message type\<close>.
\<close>

theorem onmessage_one_response:
  "\<exists>resp. onmessage calcs m = [resp]
     \<and> response_id resp = m_id m
     \<and> ((\<exists>res. resp = SUCCESS (m_id m) res) \<or> (\<exists>e. resp = ERROR (m_id m) e))
     \<and> (m_type m \<notin> set known_types \<longrightarrow>
          resp = ERROR (m_id m) (Error (''Unknown message type: '' @ m_type m)))"
proof (cases "switch_type calcs m")
  case (Inl e)
  moreover have "switch_type calcs m = Inl (Error (''Unknown message type: '' @ m_type m))"
    if "m_type m \<notin> set known_types"
    using that by (simp add: switch_type_def known_types_def)
  ultimately show ?thesis
    by (auto simp: onmessage_def)
next
  case (Inr res)
  moreover have "switch_type calcs m = Inl (Error (''Unknown message type: '' @ m_type m))"
    if "m_type m \<notin> set known_types"
    using that by (simp add: switch_type_def known_types_def)
  ultimately show ?thesis
    by (auto simp: onmessage_def)
qed

theorem onmessage_one_response_witness:
  "''REBALANCE'' \<notin> set known_types
   \<and> onmessage stub_calculators
       \<lparr>m_type = ''REBALANCE'', m_id = 7,
        m_data = \<lparr>holdings = None, currentPrices = None, initialInvestment = None\<rparr>\<rparr>
     = [ERROR 7 (Error ''Unknown message type: REBALANCE'')]"
proof -
  have unknown: "''REBALANCE'' \<notin> set known_types"
    by (simp add: known_types_def)
  with onmessage_one_response [of stub_calculators
      "\<lparr>m_type = ''REBALANCE'', m_id = 7,
        m_data = \<lparr>holdings = None, currentPrices = None, initialInvestment = None\<rparr>\<rparr>"]
  show ?thesis
    by auto
qed

end
